theory Spec2Isabelle
  imports Complex_Main
begin

section \<open>The product catalogue: data model\<close>

text \<open>
  The catalogue keeps its products in one JSON document, \<^verbatim>\<open>data/products.json\<close>, read
  and rewritten whole by every operation of \<^verbatim>\<open>productStore\<close>. The TypeScript objects are
  records here. A property that may be absent (\<^verbatim>\<open>body_html?: string\<close>) is an
  \<open>option\<close>, \<open>None\<close> standing for the absent key; a property that may also be
  \<^verbatim>\<open>null\<close> (\<^verbatim>\<open>published_at\<close>, \<^verbatim>\<open>compare_at_price\<close>) has one more \<open>option\<close> inside,
  \<open>Some None\<close> standing for \<^verbatim>\<open>null\<close>.

  A number is a double as \<^verbatim>\<open>JSON.parse\<close> gives it: a finite one, or one of the two
  infinities (\<^verbatim>\<open>1e999\<close> parses to \<^verbatim>\<open>Infinity\<close>); \<^verbatim>\<open>NaN\<close> has no JSON text. Every finite
  double is a rational, and the only operations the store applies to a number (comparison
  with zero, \<^verbatim>\<open>Math.min\<close>) are exact on doubles, so a finite number is a \<open>rat\<close>. The
  order is that of the doubles, the infinities below and above every finite number.

  The declarations of \<^verbatim>\<open>ShopifyProduct\<close>, \<^verbatim>\<open>ShopifyVariant\<close>, \<^verbatim>\<open>ShopifyOption\<close> and
  \<^verbatim>\<open>ShopifyImage\<close> are not part of the sources at hand; their fields are the ones that
  \<^verbatim>\<open>createProduct\<close>, \<^verbatim>\<open>createSeedProducts\<close> and the validation schemas name. A variant
  carries its identifier as an optional field: the schema admits a payload variant with or
  without one, and the store decides which identifier the stored variant gets.
\<close>

datatype js_number = MinusInfinity | Finite rat | Infinity

instantiation js_number :: "{zero, linorder}"
begin

definition zero_js_number :: js_number where
  "zero_js_number = Finite 0"

definition less_eq_js_number :: "js_number \<Rightarrow> js_number \<Rightarrow> bool" where
  "less_eq_js_number a b =
     (case a of
        MinusInfinity \<Rightarrow> True
      | Finite x \<Rightarrow>
          (case b of MinusInfinity \<Rightarrow> False | Finite y \<Rightarrow> x \<le> y | Infinity \<Rightarrow> True)
      | Infinity \<Rightarrow> (case b of Infinity \<Rightarrow> True | _ \<Rightarrow> False))"

definition less_js_number :: "js_number \<Rightarrow> js_number \<Rightarrow> bool" where
  "less_js_number a b = (a \<le> b \<and> \<not> b \<le> (a::js_number))"

instance
proof
  fix x y z :: js_number
  show "(x < y) = (x \<le> y \<and> \<not> y \<le> x)"
    by (simp add: less_js_number_def)
  show "x \<le> x"
    by (cases x) (simp_all add: less_eq_js_number_def)
  show "x \<le> y \<Longrightarrow> y \<le> z \<Longrightarrow> x \<le> z"
    by (cases x; cases y; cases z) (simp_all add: less_eq_js_number_def)
  show "x \<le> y \<Longrightarrow> y \<le> x \<Longrightarrow> x = y"
    by (cases x; cases y) (simp_all add: less_eq_js_number_def)
  show "x \<le> y \<or> y \<le> x"
    by (cases x; cases y) (auto simp: less_eq_js_number_def)
qed

end

text \<open>
  The price of a variant is always there; in a document it can be \<^verbatim>\<open>null\<close>, which is what
  a write leaves of a price that is not finite, and \<open>None\<close> stands for that \<^verbatim>\<open>null\<close>. The
  optional numbers \<^verbatim>\<open>compare_at_price\<close>, \<^verbatim>\<open>width\<close> and \<^verbatim>\<open>height\<close> have both: \<open>None\<close> for
  the absent key, \<open>Some None\<close> for \<^verbatim>\<open>null\<close>. An inventory quantity is an integer: the
  schema admits nothing else.
\<close>

record ShopifyOption =
  o_id :: "string option"
  o_name :: string
  o_values :: "string list"

record ShopifyImage =
  i_id :: "string option"
  i_src :: string
  i_alt :: "string option"
  i_width :: "js_number option option"
  i_height :: "js_number option option"

record ShopifyVariant =
  v_id :: "string option"
  v_sku :: "string option"
  v_title :: "string option"
  v_price :: "js_number option"
  v_compare_at_price :: "js_number option option"
  v_inventory_quantity :: "int option"
  v_requires_shipping :: "bool option"
  v_taxable :: "bool option"
  v_option_values :: "string list option"

record ShopifyProduct =
  p_id :: string
  title :: string
  body_html :: "string option"
  vendor :: string
  product_type :: "string option"
  tags :: "string list option"
  options :: "ShopifyOption list option"
  images :: "ShopifyImage list option"
  variants :: "ShopifyVariant list"
  created_at :: string
  updated_at :: string
  published_at :: "string option"

text \<open>\<^verbatim>\<open>ProductListItem\<close>: a product with one more field, \<^verbatim>\<open>min_price\<close>.\<close>

record ProductListItem = ShopifyProduct +
  min_price :: js_number

text \<open>
  \<^verbatim>\<open>NewProductInput\<close> is what \<^verbatim>\<open>createProduct\<close> receives, \<^verbatim>\<open>UpdateProductInput\<close>
  (\<^verbatim>\<open>Partial<NewProductInput>\<close>) what \<^verbatim>\<open>updateProduct\<close> receives: there every key may
  be absent.
\<close>

record NewProductInput =
  in_title :: string
  in_body_html :: "string option"
  in_vendor :: string
  in_product_type :: "string option"
  in_tags :: "string list option"
  in_options :: "ShopifyOption list option"
  in_images :: "ShopifyImage list option"
  in_variants :: "ShopifyVariant list"
  in_published_at :: "string option option"

record UpdateProductInput =
  up_title :: "string option"
  up_body_html :: "string option"
  up_vendor :: "string option"
  up_product_type :: "string option"
  up_tags :: "string list option"
  up_options :: "ShopifyOption list option"
  up_images :: "ShopifyImage list option"
  up_variants :: "ShopifyVariant list option"
  up_published_at :: "string option option"

section \<open>The product store\<close>

text \<open>
  What the store reads and writes besides its arguments is the \<open>world\<close>: the document
  (\<open>None\<close> while the file does not exist), the identifiers \<^verbatim>\<open>randomUUID()\<close> will
  return, and the instants \<^verbatim>\<open>new Date().toISOString()\<close> will return, each with the
  number of values already taken, and the largest number of arguments that the engine
  passes in one call, \<open>max_arguments\<close>. Every operation takes the world and returns the
  new one.

  The document is kept as what \<^verbatim>\<open>readProductsFromFile\<close> distinguishes in its text: blank
  text, text that \<^verbatim>\<open>JSON.parse\<close> rejects, a JSON value that is no array, and an array,
  which the source casts to \<^verbatim>\<open>ShopifyProduct[]\<close> unchecked. A write is taken to succeed.
  Two faults are left: reading a file that does not exist, which
  \<^verbatim>\<open>ensureDataFileExists\<close> rules out, and a call with more arguments than the engine
  passes; the operations return them as values.
\<close>

datatype document = Blank | Malformed | NotArray | Products "ShopifyProduct list"

record world =
  data_file :: "document option"
  uuid_source :: "nat \<Rightarrow> string"
  uuids_drawn :: nat
  clock :: "nat \<Rightarrow> string"
  clock_reads :: nat
  max_arguments :: nat

datatype fault = ENOENT | RangeError

definition randomUUID :: "world \<Rightarrow> string \<times> world" where
  "randomUUID w = (uuid_source w (uuids_drawn w), w\<lparr>uuids_drawn := Suc (uuids_drawn w)\<rparr>)"

definition toISOString_now :: "world \<Rightarrow> string \<times> world" where
  "toISOString_now w = (clock w (clock_reads w), w\<lparr>clock_reads := Suc (clock_reads w)\<rparr>)"

definition seed_options :: "ShopifyOption list" where
  "seed_options =
     [\<lparr>o_id = Some ''opt-size'', o_name = ''Size'', o_values = [''S'', ''M'', ''L'']\<rparr>,
      \<lparr>o_id = Some ''opt-color'', o_name = ''Color'', o_values = [''Black'', ''White'']\<rparr>]"

definition seed_images :: "ShopifyImage list" where
  "seed_images =
     [\<lparr>i_id = Some ''img-1'',
       i_src = ''https://images.pexels.com/photos/7671166/pexels-photo-7671166.jpeg'',
       i_alt = Some ''Black t-shirt on hanger'', i_width = None, i_height = None\<rparr>]"

definition seed_variants :: "ShopifyVariant list" where
  "seed_variants =
     [\<lparr>v_id = Some ''var-1'', v_sku = Some ''TSHIRT-BLK-M'', v_title = Some ''Black / M'',
       v_price = Some (Finite (1999 / 100)), v_compare_at_price = None,
       v_inventory_quantity = Some 10,
       v_requires_shipping = None, v_taxable = None,
       v_option_values = Some [''M'', ''Black'']\<rparr>,
      \<lparr>v_id = Some ''var-2'', v_sku = Some ''TSHIRT-WHT-M'', v_title = Some ''White / M'',
       v_price = Some (Finite (2199 / 100)), v_compare_at_price = None,
       v_inventory_quantity = Some 5,
       v_requires_shipping = None, v_taxable = None,
       v_option_values = Some [''M'', ''White'']\<rparr>]"

definition createSeedProducts :: "world \<Rightarrow> ShopifyProduct list \<times> world" where
  "createSeedProducts w =
     (let (now, w1) = toISOString_now w in
      ([\<lparr>p_id = ''prod-1'',
         title = ''Sample T-Shirt'',
         body_html = Some
           ''<p>A comfy cotton t-shirt inspired by Shopify.</p><p>Perfect for devs.</p>'',
         vendor = ''Dev Merch Co.'',
         product_type = Some ''Shirt'',
         tags = Some [''tshirt'', ''dev'', ''cotton''],
         options = Some seed_options,
         images = Some seed_images,
         variants = seed_variants,
         created_at = now,
         updated_at = now,
         published_at = Some now\<rparr>], w1))"

text \<open>
  \<^verbatim>\<open>JSON.stringify(products, null, 2)\<close>, as the document that its text is when read
  back. The text has every product in order and every property that is there, with one
  change: a number that is not finite is written as \<^verbatim>\<open>null\<close>. \<open>written_number\<close> is
  what the text has for a number or \<^verbatim>\<open>null\<close>.
\<close>

definition written_number :: "js_number option \<Rightarrow> js_number option" where
  "written_number n = (case n of Some (Finite x) \<Rightarrow> Some (Finite x) | _ \<Rightarrow> None)"

definition written_variant :: "ShopifyVariant \<Rightarrow> ShopifyVariant" where
  "written_variant v =
     v\<lparr>v_price := written_number (v_price v),
       v_compare_at_price := map_option written_number (v_compare_at_price v)\<rparr>"

definition written_image :: "ShopifyImage \<Rightarrow> ShopifyImage" where
  "written_image i =
     i\<lparr>i_width := map_option written_number (i_width i),
       i_height := map_option written_number (i_height i)\<rparr>"

definition as_written :: "ShopifyProduct \<Rightarrow> ShopifyProduct" where
  "as_written p =
     p\<lparr>images := map_option (map written_image) (images p),
       variants := map written_variant (variants p)\<rparr>"

definition JSON_stringify :: "ShopifyProduct list \<Rightarrow> document" where
  "JSON_stringify products = Products (map as_written products)"

definition writeFileSync :: "document \<Rightarrow> world \<Rightarrow> world" where
  "writeFileSync d w = w\<lparr>data_file := Some d\<rparr>"

definition ensureDataFileExists :: "world \<Rightarrow> world" where
  "ensureDataFileExists w =
     (if data_file w = None
      then (let (seed, w1) = createSeedProducts w in writeFileSync (JSON_stringify seed) w1)
      else w)"

definition readFileSync :: "world \<Rightarrow> fault + document" where
  "readFileSync w = (case data_file w of None \<Rightarrow> Inl ENOENT | Some d \<Rightarrow> Inr d)"

definition readProductsFromFile :: "world \<Rightarrow> fault + ShopifyProduct list \<times> world" where
  "readProductsFromFile w =
     (let w1 = ensureDataFileExists w in
      case readFileSync w1 of
        Inl e \<Rightarrow> Inl e
      | Inr raw \<Rightarrow>
          (case raw of
             Blank \<Rightarrow> Inr ([], w1)
           | Malformed \<Rightarrow> Inr ([], w1)
           | NotArray \<Rightarrow> Inr ([], w1)
           | Products parsed \<Rightarrow> Inr (parsed, w1)))"

definition writeProductsToFile :: "ShopifyProduct list \<Rightarrow> world \<Rightarrow> world" where
  "writeProductsToFile products w = writeFileSync (JSON_stringify products) w"

text \<open>
  \<^verbatim>\<open>Math.min(...xs)\<close>: the spread passes every element of the array as an argument of
  one call, which raises \<^verbatim>\<open>RangeError\<close> when the engine does not pass that many.
  \<^verbatim>\<open>Math.min\<close> converts each argument to a number (\<^verbatim>\<open>null\<close> to 0) and returns the least,
  \<^verbatim>\<open>Infinity\<close> when it has no argument.
\<close>

definition ToNumber :: "js_number option \<Rightarrow> js_number" where
  "ToNumber v = (case v of None \<Rightarrow> 0 | Some n \<Rightarrow> n)"

definition Math_min :: "nat \<Rightarrow> js_number option list \<Rightarrow> fault + js_number" where
  "Math_min limit xs =
     (if limit < length xs then Inl RangeError
      else Inr (fold (\<lambda>x m. min m (ToNumber x)) xs Infinity))"

definition list_item :: "nat \<Rightarrow> ShopifyProduct \<Rightarrow> fault + ProductListItem" where
  "list_item limit p =
     (case (if 0 < length (variants p) then Math_min limit (map v_price (variants p))
            else Inr 0) of
        Inl e \<Rightarrow> Inl e
      | Inr m \<Rightarrow> Inr (ShopifyProduct.extend p (ProductListItem.fields m)))"

text \<open>\<^verbatim>\<open>products.map(f)\<close> where a call of \<open>f\<close> can raise: the first fault ends the loop.\<close>

fun Array_map :: "('a \<Rightarrow> fault + 'b) \<Rightarrow> 'a list \<Rightarrow> fault + 'b list" where
  "Array_map f [] = Inr []"
| "Array_map f (x # xs) =
     (case f x of
        Inl e \<Rightarrow> Inl e
      | Inr y \<Rightarrow> (case Array_map f xs of Inl e \<Rightarrow> Inl e | Inr ys \<Rightarrow> Inr (y # ys)))"

text \<open>
  \<open>listProducts\<close> returns its result beside the world it leaves, which is the world
  after the read also when the listing faults.
\<close>

definition listProducts :: "world \<Rightarrow> (fault + ProductListItem list) \<times> world" where
  "listProducts w =
     (case readProductsFromFile w of
        Inl e \<Rightarrow> (Inl e, w)
      | Inr (products, w1) \<Rightarrow> (Array_map (list_item (max_arguments w1)) products, w1))"

text \<open>\<^verbatim>\<open>Array.prototype.find\<close> is \<^const>\<open>List.find\<close>; \<^verbatim>\<open>findIndex\<close> returns \<open>None\<close> for -1.\<close>

fun findIndex :: "('a \<Rightarrow> bool) \<Rightarrow> 'a list \<Rightarrow> nat option" where
  "findIndex P [] = None"
| "findIndex P (x # xs) = (if P x then Some 0 else map_option Suc (findIndex P xs))"

definition getProductById :: "string \<Rightarrow> world \<Rightarrow> fault + ShopifyProduct option \<times> world" where
  "getProductById pid w =
     (case readProductsFromFile w of
        Inl e \<Rightarrow> Inl e
      | Inr (products, w1) \<Rightarrow> Inr (List.find (\<lambda>p. p_id p = pid) products, w1))"

text \<open>
  \<^verbatim>\<open>input.variants.map((v) => ({ ...v, id: randomUUID() }))\<close>: one identifier drawn for
  each variant, in order.
\<close>

fun fresh_variants :: "ShopifyVariant list \<Rightarrow> world \<Rightarrow> ShopifyVariant list \<times> world" where
  "fresh_variants [] w = ([], w)"
| "fresh_variants (v # vs) w =
     (let (u, w1) = randomUUID w;
          (rest, w2) = fresh_variants vs w1
      in (v\<lparr>v_id := Some u\<rparr> # rest, w2))"

definition createProduct :: "NewProductInput \<Rightarrow> world \<Rightarrow> fault + ShopifyProduct \<times> world" where
  "createProduct input w =
     (case readProductsFromFile w of
        Inl e \<Rightarrow> Inl e
      | Inr (products, w1) \<Rightarrow>
          (let (now, w2) = toISOString_now w1;
               (pid, w3) = randomUUID w2;
               (vs, w4) = fresh_variants (in_variants input) w3;
               product =
                 \<lparr>p_id = pid,
                  title = in_title input,
                  body_html = in_body_html input,
                  vendor = in_vendor input,
                  product_type = in_product_type input,
                  tags = in_tags input,
                  options = in_options input,
                  images = in_images input,
                  variants = vs,
                  created_at = now,
                  updated_at = now,
                  published_at =
                    (case in_published_at input of
                       Some (Some s) \<Rightarrow> Some s
                     | _ \<Rightarrow> Some now)\<rparr>
           in Inr (product, writeProductsToFile (products @ [product]) w4)))"

text \<open>
  \<^verbatim>\<open>input.variants.map((v, i) => ({ ...v, id: existing.variants[i]?.id ?? randomUUID() }))\<close>:
  \<open>stored_id ex i\<close> is \<^verbatim>\<open>existing.variants[i]?.id\<close>, the identifier of the stored variant
  at index \<open>i\<close>; \<^verbatim>\<open>randomUUID()\<close> is called only where that is \<^verbatim>\<open>undefined\<close> (no variant
  at the index, or one without an identifier).
\<close>

definition stored_id :: "ShopifyVariant list \<Rightarrow> nat \<Rightarrow> string option" where
  "stored_id ex i = (if i < length ex then v_id (ex ! i) else None)"

fun positional_variants ::
  "ShopifyVariant list \<Rightarrow> nat \<Rightarrow> ShopifyVariant list \<Rightarrow> world \<Rightarrow> ShopifyVariant list \<times> world"
where
  "positional_variants ex i [] w = ([], w)"
| "positional_variants ex i (v # vs) w =
     (let (u, w1) =
            (case stored_id ex i of
               Some s \<Rightarrow> (s, w)
             | None \<Rightarrow> randomUUID w);
          (rest, w2) = positional_variants ex (Suc i) vs w1
      in (v\<lparr>v_id := Some u\<rparr> # rest, w2))"

text \<open>
  \<^verbatim>\<open>{ ...existing, ...input }\<close>: a key of the input replaces the stored value, an absent
  key leaves it. \<^verbatim>\<open>variants\<close> and \<^verbatim>\<open>updated_at\<close> are set after the spread by
  \<^verbatim>\<open>updateProduct\<close>.
\<close>

definition spread :: "ShopifyProduct \<Rightarrow> UpdateProductInput \<Rightarrow> ShopifyProduct" where
  "spread existing input =
     existing\<lparr>
       title := (case up_title input of None \<Rightarrow> title existing | Some s \<Rightarrow> s),
       body_html := (case up_body_html input of None \<Rightarrow> body_html existing | Some s \<Rightarrow> Some s),
       vendor := (case up_vendor input of None \<Rightarrow> vendor existing | Some s \<Rightarrow> s),
       product_type :=
         (case up_product_type input of None \<Rightarrow> product_type existing | Some s \<Rightarrow> Some s),
       tags := (case up_tags input of None \<Rightarrow> tags existing | Some s \<Rightarrow> Some s),
       options := (case up_options input of None \<Rightarrow> options existing | Some s \<Rightarrow> Some s),
       images := (case up_images input of None \<Rightarrow> images existing | Some s \<Rightarrow> Some s),
       published_at :=
         (case up_published_at input of None \<Rightarrow> published_at existing | Some s \<Rightarrow> s)\<rparr>"

definition updateProduct ::
  "string \<Rightarrow> UpdateProductInput \<Rightarrow> world \<Rightarrow> fault + ShopifyProduct option \<times> world"
where
  "updateProduct pid input w =
     (case readProductsFromFile w of
        Inl e \<Rightarrow> Inl e
      | Inr (products, w1) \<Rightarrow>
          (case findIndex (\<lambda>p. p_id p = pid) products of
             None \<Rightarrow> Inr (None, w1)
           | Some idx \<Rightarrow>
               (let existing = products ! idx;
                    (vs, w2) =
                      (case up_variants input of
                         Some incoming \<Rightarrow> positional_variants (variants existing) 0 incoming w1
                       | None \<Rightarrow> (variants existing, w1));
                    (now, w3) = toISOString_now w2;
                    updated = (spread existing input)\<lparr>variants := vs, updated_at := now\<rparr>
                in Inr (Some updated, writeProductsToFile (products[idx := updated]) w3))))"

text \<open>\<^verbatim>\<open>products.splice(idx, 1)\<close> removes the element at \<open>idx\<close>.\<close>

definition splice1 :: "nat \<Rightarrow> 'a list \<Rightarrow> 'a list" where
  "splice1 idx xs = take idx xs @ drop (Suc idx) xs"

definition deleteProduct :: "string \<Rightarrow> world \<Rightarrow> fault + bool \<times> world" where
  "deleteProduct pid w =
     (case readProductsFromFile w of
        Inl e \<Rightarrow> Inl e
      | Inr (products, w1) \<Rightarrow>
          (case findIndex (\<lambda>p. p_id p = pid) products of
             None \<Rightarrow> Inr (False, w1)
           | Some idx \<Rightarrow> Inr (True, writeProductsToFile (splice1 idx products) w1)))"

section \<open>The validation schemas\<close>

text \<open>
  The request handlers pass the parsed JSON body of a request to
  \<^verbatim>\<open>createProductSchema.safeParse\<close> (or \<^verbatim>\<open>updateProductSchema.safeParse\<close>) and call the
  store only with the value it accepts. A JSON value is a \<open>json\<close>; an object holds its
  properties as a list of pairs, each key once, and \<open>property\<close> reads one
  (\<open>None\<close> for \<^verbatim>\<open>undefined\<close>).

  \<^verbatim>\<open>safeParse\<close> never throws: it returns the typed value, or the list of issues, each
  with the path of the offending value (the key of the field first) and a message. The
  schemas are declared with the combinators of the validation library, which is not part
  of the sources; the combinators below are that library's behaviour on JSON values:
  every field is checked, the issues of all fields are collected in the order of the
  declaration, an absent key satisfies \<^verbatim>\<open>.optional()\<close> only, \<^verbatim>\<open>null\<close> satisfies
  \<^verbatim>\<open>.nullable()\<close> only, and unknown keys are dropped. What the library accepts as a URL
  and as a date-time is left open: the two tests are the parameter \<open>formats\<close>.
\<close>

datatype json =
  JNull | JBool bool | JNum js_number | JStr string | JArr "json list"
  | JObj "(string \<times> json) list"

datatype seg = Key string | Index nat

datatype issue = Issue (path: "seg list") (message: string)

record formats =
  is_url :: "string \<Rightarrow> bool"
  is_datetime :: "string \<Rightarrow> bool"

definition property :: "(string \<times> json) list \<Rightarrow> string \<Rightarrow> json option" where
  "property kv k = map_of kv k"

definition getParsedType :: "json \<Rightarrow> string" where
  "getParsedType j =
     (case j of
        JNull \<Rightarrow> ''null''
      | JBool b \<Rightarrow> ''boolean''
      | JNum n \<Rightarrow> ''number''
      | JStr s \<Rightarrow> ''string''
      | JArr xs \<Rightarrow> ''array''
      | JObj kv \<Rightarrow> ''object'')"

definition invalid_type :: "seg list \<Rightarrow> string \<Rightarrow> string \<Rightarrow> json option \<Rightarrow> issue list" where
  "invalid_type p expected required v =
     [Issue p
        (case v of
           None \<Rightarrow> required
         | Some j \<Rightarrow> ''Expected '' @ expected @ '', received '' @ getParsedType j)]"

definition issues_of :: "issue list + 'a \<Rightarrow> issue list" where
  "issues_of r = (case r of Inl es \<Rightarrow> es | Inr x \<Rightarrow> [])"

text \<open>\<open>ap\<close> joins the results of two fields: the value when both have one, else all issues.\<close>

definition ap :: "issue list + ('a \<Rightarrow> 'b) \<Rightarrow> issue list + 'a \<Rightarrow> issue list + 'b" where
  "ap f x =
     (case f of
        Inr g \<Rightarrow> (case x of Inr a \<Rightarrow> Inr (g a) | Inl es \<Rightarrow> Inl es)
      | Inl es \<Rightarrow> Inl (es @ issues_of x))"

text \<open>A check on a value already of the right type (\<^verbatim>\<open>.min\<close>, \<^verbatim>\<open>.positive\<close>, \<^verbatim>\<open>.url\<close>).\<close>

definition check :: "bool \<Rightarrow> seg list \<Rightarrow> string \<Rightarrow> issue list" where
  "check ok p msg = (if ok then [] else [Issue p msg])"

definition refine :: "issue list + 'a \<Rightarrow> ('a \<Rightarrow> issue list) \<Rightarrow> issue list + 'a" where
  "refine r checks =
     (case r of
        Inl es \<Rightarrow> Inl es
      | Inr a \<Rightarrow> (if checks a = [] then Inr a else Inl (checks a)))"

definition z_string :: "seg list \<Rightarrow> json option \<Rightarrow> issue list + string" where
  "z_string p v =
     (case v of
        Some (JStr s) \<Rightarrow> Inr s
      | _ \<Rightarrow> Inl (invalid_type p ''string'' ''Required'' v))"

definition z_number ::
  "string \<Rightarrow> string \<Rightarrow> seg list \<Rightarrow> json option \<Rightarrow> issue list + js_number"
where
  "z_number required_error invalid_type_error p v =
     (case v of
        Some (JNum n) \<Rightarrow> Inr n
      | None \<Rightarrow> Inl [Issue p required_error]
      | Some j \<Rightarrow> Inl [Issue p invalid_type_error])"

definition z_number_plain :: "seg list \<Rightarrow> json option \<Rightarrow> issue list + js_number" where
  "z_number_plain p v =
     (case v of
        Some (JNum n) \<Rightarrow> Inr n
      | _ \<Rightarrow> Inl (invalid_type p ''number'' ''Required'' v))"

definition z_boolean :: "seg list \<Rightarrow> json option \<Rightarrow> issue list + bool" where
  "z_boolean p v =
     (case v of
        Some (JBool b) \<Rightarrow> Inr b
      | _ \<Rightarrow> Inl (invalid_type p ''boolean'' ''Required'' v))"

definition z_optional ::
  "(json option \<Rightarrow> issue list + 'a) \<Rightarrow> json option \<Rightarrow> issue list + 'a option"
where
  "z_optional schema v = (case v of None \<Rightarrow> Inr None | Some j \<Rightarrow> map_sum id Some (schema v))"

definition z_nullable ::
  "(json option \<Rightarrow> issue list + 'a) \<Rightarrow> json option \<Rightarrow> issue list + 'a option"
where
  "z_nullable schema v =
     (case v of Some JNull \<Rightarrow> Inr None | _ \<Rightarrow> map_sum id Some (schema v))"

fun array_items ::
  "(seg list \<Rightarrow> json option \<Rightarrow> issue list + 'a) \<Rightarrow> seg list \<Rightarrow> nat \<Rightarrow> json list \<Rightarrow>
   issue list + 'a list"
where
  "array_items schema p i [] = Inr []"
| "array_items schema p i (x # xs) =
     ap (ap (Inr Cons) (schema (p @ [Index i]) (Some x))) (array_items schema p (Suc i) xs)"

text \<open>
  \<^verbatim>\<open>z.array(schema)\<close>, with the message of \<^verbatim>\<open>.nonempty(message)\<close> when the declaration has
  one: the issue of an empty array comes first, the issues of the elements follow.
\<close>

definition z_array ::
  "(seg list \<Rightarrow> json option \<Rightarrow> issue list + 'a) \<Rightarrow> string option \<Rightarrow> seg list \<Rightarrow> json option \<Rightarrow>
   issue list + 'a list"
where
  "z_array schema nonempty p v =
     (case v of
        Some (JArr xs) \<Rightarrow>
          (case nonempty of
             Some msg \<Rightarrow>
               (if xs = [] then Inl (Issue p msg # issues_of (array_items schema p 0 xs))
                else array_items schema p 0 xs)
           | None \<Rightarrow> array_items schema p 0 xs)
      | _ \<Rightarrow> Inl (invalid_type p ''array'' ''Required'' v))"

text \<open>
  \<^verbatim>\<open>Number.isInteger\<close>, false of the infinities, and the integer that a number which
  passed it is.
\<close>

definition is_integer :: "js_number \<Rightarrow> bool" where
  "is_integer n = (case n of Finite x \<Rightarrow> of_int \<lfloor>x\<rfloor> = x | _ \<Rightarrow> False)"

definition integer_of :: "js_number \<Rightarrow> int" where
  "integer_of n = (case n of Finite x \<Rightarrow> \<lfloor>x\<rfloor> | _ \<Rightarrow> 0)"

definition variantSchema :: "seg list \<Rightarrow> json option \<Rightarrow> issue list + ShopifyVariant" where
  "variantSchema p v =
     (case v of
        Some (JObj kv) \<Rightarrow>
          ap (ap (ap (ap (ap (ap (ap (ap (ap
            (Inr (\<lambda>i s t pr c q r x ov.
                    \<lparr>v_id = i, v_sku = s, v_title = t, v_price = Some pr,
                     v_compare_at_price = c,
                     v_inventory_quantity = map_option integer_of q, v_requires_shipping = r,
                     v_taxable = x, v_option_values = ov\<rparr>))
            (z_optional (z_string (p @ [Key ''id''])) (property kv ''id'')))
            (z_optional (z_string (p @ [Key ''sku''])) (property kv ''sku'')))
            (z_optional (z_string (p @ [Key ''title''])) (property kv ''title'')))
            (refine
               (z_number ''Price is required'' ''Price must be a number''
                  (p @ [Key ''price'']) (property kv ''price''))
               (\<lambda>n. check (0 < n) (p @ [Key ''price'']) ''Price must be greater than 0'')))
            (z_optional (z_nullable (z_number_plain (p @ [Key ''compare_at_price''])))
               (property kv ''compare_at_price'')))
            (z_optional
               (\<lambda>u. refine (z_number_plain (p @ [Key ''inventory_quantity'']) u)
                  (\<lambda>n. check (is_integer n) (p @ [Key ''inventory_quantity''])
                          ''Expected integer, received float'' @
                        check (0 \<le> n) (p @ [Key ''inventory_quantity''])
                          ''Number must be greater than or equal to 0''))
               (property kv ''inventory_quantity'')))
            (z_optional (z_boolean (p @ [Key ''requires_shipping''])) (property kv ''requires_shipping'')))
            (z_optional (z_boolean (p @ [Key ''taxable''])) (property kv ''taxable'')))
            (z_optional (z_array z_string None (p @ [Key ''option_values'']))
               (property kv ''option_values''))
      | _ \<Rightarrow> Inl (invalid_type p ''object'' ''Required'' v))"

definition optionSchema :: "seg list \<Rightarrow> json option \<Rightarrow> issue list + ShopifyOption" where
  "optionSchema p v =
     (case v of
        Some (JObj kv) \<Rightarrow>
          ap (ap (ap
            (Inr (\<lambda>i n vs. \<lparr>o_id = i, o_name = n, o_values = vs\<rparr>))
            (z_optional (z_string (p @ [Key ''id''])) (property kv ''id'')))
            (refine (z_string (p @ [Key ''name'']) (property kv ''name''))
               (\<lambda>s. check (1 \<le> length s) (p @ [Key ''name'']) ''Option name is required'')))
            (z_array z_string (Some ''Option must have at least one value'')
               (p @ [Key ''values'']) (property kv ''values''))
      | _ \<Rightarrow> Inl (invalid_type p ''object'' ''Required'' v))"

definition imageSchema ::
  "formats \<Rightarrow> seg list \<Rightarrow> json option \<Rightarrow> issue list + ShopifyImage"
where
  "imageSchema fmt p v =
     (case v of
        Some (JObj kv) \<Rightarrow>
          ap (ap (ap (ap (ap
            (Inr (\<lambda>i s a w h.
                    \<lparr>i_id = i, i_src = s, i_alt = a, i_width = map_option Some w,
                     i_height = map_option Some h\<rparr>))
            (z_optional (z_string (p @ [Key ''id''])) (property kv ''id'')))
            (refine (z_string (p @ [Key ''src'']) (property kv ''src''))
               (\<lambda>s. check (is_url fmt s) (p @ [Key ''src'']) ''Image must be a valid URL'')))
            (z_optional (z_string (p @ [Key ''alt''])) (property kv ''alt'')))
            (z_optional (z_number_plain (p @ [Key ''width''])) (property kv ''width'')))
            (z_optional (z_number_plain (p @ [Key ''height''])) (property kv ''height''))
      | _ \<Rightarrow> Inl (invalid_type p ''object'' ''Required'' v))"

text \<open>The fields of \<^verbatim>\<open>createProductSchema\<close>, each with the key it is declared under.\<close>

definition title_field :: "json option \<Rightarrow> issue list + string" where
  "title_field v =
     refine (z_string [Key ''title''] v)
       (\<lambda>s. check (1 \<le> length s) [Key ''title''] ''Title is required'')"

definition body_html_field :: "json option \<Rightarrow> issue list + string" where
  "body_html_field v =
     refine (z_string [Key ''body_html''] v)
       (\<lambda>s. check (50 \<le> length s) [Key ''body_html'']
               ''Description must be at least 50 characters'')"

definition vendor_field :: "json option \<Rightarrow> issue list + string" where
  "vendor_field v =
     refine (z_string [Key ''vendor''] v)
       (\<lambda>s. check (1 \<le> length s) [Key ''vendor''] ''Vendor is required'')"

definition variants_field :: "json option \<Rightarrow> issue list + ShopifyVariant list" where
  "variants_field v =
     z_array variantSchema (Some ''At least one variant is required'') [Key ''variants''] v"

definition published_at_field :: "formats \<Rightarrow> json option \<Rightarrow> issue list + string option option" where
  "published_at_field fmt v =
     z_nullable
       (z_optional
          (\<lambda>u. refine (z_string [Key ''published_at''] u)
             (\<lambda>s. check (is_datetime fmt s) [Key ''published_at''] ''Invalid datetime'')))
       v"

definition createProductSchema :: "formats \<Rightarrow> json \<Rightarrow> issue list + NewProductInput" where
  "createProductSchema fmt j =
     (case j of
        JObj kv \<Rightarrow>
          ap (ap (ap (ap (ap (ap (ap (ap (ap
            (Inr (\<lambda>t b v pt tg os im vs pa.
                    \<lparr>in_title = t, in_body_html = b, in_vendor = v, in_product_type = pt,
                     in_tags = tg, in_options = os, in_images = im, in_variants = vs,
                     in_published_at = (case pa of None \<Rightarrow> Some None | Some u \<Rightarrow> map_option Some u)\<rparr>))
            (title_field (property kv ''title'')))
            (z_optional body_html_field (property kv ''body_html'')))
            (vendor_field (property kv ''vendor'')))
            (z_optional (z_string [Key ''product_type'']) (property kv ''product_type'')))
            (z_optional (z_array z_string None [Key ''tags'']) (property kv ''tags'')))
            (z_optional (z_array optionSchema None [Key ''options'']) (property kv ''options'')))
            (z_optional (z_array (imageSchema fmt) None [Key ''images'']) (property kv ''images'')))
            (variants_field (property kv ''variants'')))
            (published_at_field fmt (property kv ''published_at''))
      | _ \<Rightarrow> Inl (invalid_type [] ''object'' ''Required'' (Some j)))"

text \<open>
  \<^verbatim>\<open>updateProductSchema = createProductSchema.partial()\<close>: the same fields, each under
  \<^verbatim>\<open>.optional()\<close>.
\<close>

definition updateProductSchema :: "formats \<Rightarrow> json \<Rightarrow> issue list + UpdateProductInput" where
  "updateProductSchema fmt j =
     (case j of
        JObj kv \<Rightarrow>
          ap (ap (ap (ap (ap (ap (ap (ap (ap
            (Inr (\<lambda>t b v pt tg os im vs pa.
                    \<lparr>up_title = t, up_body_html = b, up_vendor = v, up_product_type = pt,
                     up_tags = tg, up_options = os, up_images = im, up_variants = vs,
                     up_published_at =
                       (case pa of
                          None \<Rightarrow> None
                        | Some None \<Rightarrow> Some None
                        | Some (Some u) \<Rightarrow> map_option Some u)\<rparr>))
            (z_optional title_field (property kv ''title'')))
            (z_optional body_html_field (property kv ''body_html'')))
            (z_optional vendor_field (property kv ''vendor'')))
            (z_optional (z_string [Key ''product_type'']) (property kv ''product_type'')))
            (z_optional (z_array z_string None [Key ''tags'']) (property kv ''tags'')))
            (z_optional (z_array optionSchema None [Key ''options'']) (property kv ''options'')))
            (z_optional (z_array (imageSchema fmt) None [Key ''images'']) (property kv ''images'')))
            (z_optional variants_field (property kv ''variants'')))
            (z_optional (published_at_field fmt) (property kv ''published_at''))
      | _ \<Rightarrow> Inl (invalid_type [] ''object'' ''Required'' (Some j)))"

section \<open>The request handlers\<close>

text \<open>
  The handlers of \<^verbatim>\<open>/api/products\<close> and \<^verbatim>\<open>/api/products/[id]\<close> are the callers of the
  store: a body that the schema rejects is answered with status 400 and the store is not
  called. A handler returns the status of its response and the world it leaves.
\<close>

definition POST :: "formats \<Rightarrow> json \<Rightarrow> world \<Rightarrow> nat \<times> world" where
  "POST fmt body w =
     (case createProductSchema fmt body of
        Inl issues \<Rightarrow> (400, w)
      | Inr payload \<Rightarrow>
          (case createProduct payload w of
             Inl e \<Rightarrow> (500, w)
           | Inr (product, w1) \<Rightarrow> (201, w1)))"

definition PUT :: "formats \<Rightarrow> string \<Rightarrow> json \<Rightarrow> world \<Rightarrow> nat \<times> world" where
  "PUT fmt pid body w =
     (case updateProductSchema fmt body of
        Inl issues \<Rightarrow> (400, w)
      | Inr payload \<Rightarrow>
          (case updateProduct pid payload w of
             Inl e \<Rightarrow> (500, w)
           | Inr (None, w1) \<Rightarrow> (404, w1)
           | Inr (Some updated, w1) \<Rightarrow> (200, w1)))"

definition DELETE :: "string \<Rightarrow> world \<Rightarrow> nat \<times> world" where
  "DELETE pid w =
     (case deleteProduct pid w of
        Inl e \<Rightarrow> (500, w)
      | Inr (ok, w1) \<Rightarrow> (if ok then (200, w1) else (404, w1)))"

datatype request = Create json | Update string json | Delete string

fun serve :: "formats \<Rightarrow> request list \<Rightarrow> world \<Rightarrow> world" where
  "serve fmt [] w = w"
| "serve fmt (Create body # rs) w = serve fmt rs (snd (POST fmt body w))"
| "serve fmt (Update pid body # rs) w = serve fmt rs (snd (PUT fmt pid body w))"
| "serve fmt (Delete pid # rs) w = serve fmt rs (snd (DELETE pid w))"

section \<open>The user stores\<close>



datatype user_error = AlreadyExists | TypeError

definition error_message :: "user_error \<Rightarrow> string" where
  "error_message e =
     (case e of
        AlreadyExists \<Rightarrow> ''User with this email already exists''
      | TypeError \<Rightarrow> ''TypeError'')"



subsection \<open>The store in memory\<close>




subsection \<open>The store backed by a file\<close>









text \<open>
  \<^verbatim>\<open>JSON.stringify(users, null, 2)\<close>, as the value that its text parses to: the same
  value, with \<^verbatim>\<open>null\<close> in the place of every number that is not finite.
\<close>

primrec written_json :: "json \<Rightarrow> json" where
  "written_json JNull = JNull"
| "written_json (JBool b) = JBool b"
| "written_json (JNum n) = (case n of Finite x \<Rightarrow> JNum (Finite x) | _ \<Rightarrow> JNull)"
| "written_json (JStr s) = JStr s"
| "written_json (JArr xs) = JArr (map written_json xs)"
| "written_json (JObj kv) = JObj (map (map_prod id written_json) kv)"







section \<open>Observations and closed forms used in the statements\<close>

text \<open>What an operation returned, and the world it left, when it did not fault.\<close>

definition returned :: "fault + 'a \<times> world \<Rightarrow> 'a option" where
  "returned r = (case r of Inl e \<Rightarrow> None | Inr (x, w) \<Rightarrow> Some x)"

definition world_after :: "fault + 'a \<times> world \<Rightarrow> world option" where
  "world_after r = (case r of Inl e \<Rightarrow> None | Inr (x, w) \<Rightarrow> Some w)"

text \<open>The collection a document stands for, as \<^const>\<open>readProductsFromFile\<close> reads it.\<close>

definition stored_products :: "document \<Rightarrow> ShopifyProduct list" where
  "stored_products d = (case d of Products ps \<Rightarrow> ps | _ \<Rightarrow> [])"

text \<open>The collection as the next operation reads it (the seed, where no document exists).\<close>

definition catalogue :: "world \<Rightarrow> ShopifyProduct list" where
  "catalogue w = (case readProductsFromFile w of Inl e \<Rightarrow> [] | Inr (ps, w1) \<Rightarrow> ps)"

text \<open>
  The invariant of the data model, of one product: at least one variant, and the price of
  every variant a number above zero.
\<close>

definition priced :: "ShopifyVariant \<Rightarrow> bool" where
  "priced v = (case v_price v of None \<Rightarrow> False | Some n \<Rightarrow> 0 < n)"

definition well_formed :: "ShopifyProduct \<Rightarrow> bool" where
  "well_formed p \<longleftrightarrow> variants p \<noteq> [] \<and> list_all priced (variants p)"

text \<open>
  What is left of it in a stored collection: at least one variant, and every price
  \<^verbatim>\<open>null\<close> or a number above zero.
\<close>

definition null_or_priced :: "ShopifyVariant \<Rightarrow> bool" where
  "null_or_priced v = (case v_price v of None \<Rightarrow> True | Some n \<Rightarrow> 0 < n)"

definition nearly_well_formed :: "ShopifyProduct \<Rightarrow> bool" where
  "nearly_well_formed p \<longleftrightarrow> variants p \<noteq> [] \<and> list_all null_or_priced (variants p)"

text \<open>
  A product that a write leaves as it is: every number of it is finite or \<^verbatim>\<open>null\<close>. The
  products of a document that the store wrote are such.
\<close>

definition written_as_is :: "ShopifyProduct \<Rightarrow> bool" where
  "written_as_is p \<longleftrightarrow> as_written p = p"

text \<open>The least of the numbers that \<^verbatim>\<open>Math.min\<close> makes of the prices of a product.\<close>

definition least_price :: "ShopifyProduct \<Rightarrow> js_number" where
  "least_price p = Min (ToNumber ` v_price ` set (variants p))"

text \<open>Where a run starts: no document yet, the empty collection, or the seed collection.\<close>

definition initial_world :: "world \<Rightarrow> bool" where
  "initial_world w \<longleftrightarrow>
     data_file w = None \<or> data_file w = Some (Products []) \<or>
     (\<exists>w0. data_file w = Some (Products (fst (createSeedProducts w0))))"


text \<open>
  The identifier \<^const>\<open>positional_variants\<close> gives the \<open>k\<close>-th variant after index \<open>i\<close>:
  the stored one at that index, or the next unused value of the identifier source, one
  value having been used for every earlier index without a stored identifier.
\<close>

definition positional_id :: "ShopifyVariant list \<Rightarrow> world \<Rightarrow> nat \<Rightarrow> nat \<Rightarrow> string" where
  "positional_id ex w i k =
     (case stored_id ex (i + k) of
        Some s \<Rightarrow> s
      | None \<Rightarrow> uuid_source w
          (uuids_drawn w + length (filter (\<lambda>j. stored_id ex j = None) [i..<i + k])))"

text \<open>The product \<^const>\<open>createProduct\<close> builds in a world where the document exists.\<close>

definition created :: "NewProductInput \<Rightarrow> world \<Rightarrow> ShopifyProduct" where
  "created input w =
     \<lparr>p_id = uuid_source w (uuids_drawn w),
      title = in_title input, body_html = in_body_html input, vendor = in_vendor input,
      product_type = in_product_type input, tags = in_tags input,
      options = in_options input, images = in_images input,
      variants =
        map (\<lambda>(k, v). v\<lparr>v_id := Some (uuid_source w (Suc (uuids_drawn w + k)))\<rparr>)
          (zip [0..<length (in_variants input)] (in_variants input)),
      created_at = clock w (clock_reads w), updated_at = clock w (clock_reads w),
      published_at =
        (case in_published_at input of
           Some (Some s) \<Rightarrow> Some s
         | _ \<Rightarrow> Some (clock w (clock_reads w)))\<rparr>"


section \<open>The rules of a creation payload, as the specification words them\<close>

text \<open>
  The rules are stated on the JSON value, apart from the schema: which keys are required,
  which are optional, and what the value under each must be. \<open>required\<close> and
  \<open>optional\<close> say whether the key may be absent.
\<close>

definition required :: "(json \<Rightarrow> bool) \<Rightarrow> json option \<Rightarrow> bool" where
  "required P v = (case v of None \<Rightarrow> False | Some j \<Rightarrow> P j)"

definition optional :: "(json \<Rightarrow> bool) \<Rightarrow> json option \<Rightarrow> bool" where
  "optional P v = (case v of None \<Rightarrow> True | Some j \<Rightarrow> P j)"

definition text_where :: "(string \<Rightarrow> bool) \<Rightarrow> json \<Rightarrow> bool" where
  "text_where P j = (case j of JStr s \<Rightarrow> P s | _ \<Rightarrow> False)"

definition number_where :: "(js_number \<Rightarrow> bool) \<Rightarrow> json \<Rightarrow> bool" where
  "number_where P j = (case j of JNum n \<Rightarrow> P n | _ \<Rightarrow> False)"

definition is_flag :: "json \<Rightarrow> bool" where
  "is_flag j = (case j of JBool b \<Rightarrow> True | _ \<Rightarrow> False)"

definition null_or :: "(json \<Rightarrow> bool) \<Rightarrow> json \<Rightarrow> bool" where
  "null_or P j = (case j of JNull \<Rightarrow> True | _ \<Rightarrow> P j)"

definition sequence_of :: "(json \<Rightarrow> bool) \<Rightarrow> json \<Rightarrow> bool" where
  "sequence_of P j = (case j of JArr xs \<Rightarrow> list_all P xs | _ \<Rightarrow> False)"

definition nonempty_sequence_of :: "(json \<Rightarrow> bool) \<Rightarrow> json \<Rightarrow> bool" where
  "nonempty_sequence_of P j = (case j of JArr xs \<Rightarrow> xs \<noteq> [] \<and> list_all P xs | _ \<Rightarrow> False)"

definition any_text :: "json \<Rightarrow> bool" where
  "any_text = text_where (\<lambda>s. True)"

definition any_number :: "json \<Rightarrow> bool" where
  "any_number = number_where (\<lambda>n. True)"

text \<open>A whole number: a finite number without a fractional part.\<close>

definition whole :: "js_number \<Rightarrow> bool" where
  "whole n = (case n of Finite x \<Rightarrow> x \<in> \<int> | _ \<Rightarrow> False)"

text \<open>
  A variant: a price above zero; when present, an inventory quantity that is a
  non-negative integer; the other properties optional, of their types.
\<close>

definition variant_rules :: "json \<Rightarrow> bool" where
  "variant_rules j =
     (case j of
        JObj kv \<Rightarrow>
          optional any_text (property kv ''id'') \<and>
          optional any_text (property kv ''sku'') \<and>
          optional any_text (property kv ''title'') \<and>
          required (number_where (\<lambda>n. 0 < n)) (property kv ''price'') \<and>
          optional (null_or any_number) (property kv ''compare_at_price'') \<and>
          optional (number_where (\<lambda>n. whole n \<and> 0 \<le> n)) (property kv ''inventory_quantity'') \<and>
          optional is_flag (property kv ''requires_shipping'') \<and>
          optional is_flag (property kv ''taxable'') \<and>
          optional (sequence_of any_text) (property kv ''option_values'')
      | _ \<Rightarrow> False)"

text \<open>An option: a non-empty name and a non-empty sequence of value strings.\<close>

definition option_rules :: "json \<Rightarrow> bool" where
  "option_rules j =
     (case j of
        JObj kv \<Rightarrow>
          optional any_text (property kv ''id'') \<and>
          required (text_where (\<lambda>s. s \<noteq> [])) (property kv ''name'') \<and>
          required (nonempty_sequence_of any_text) (property kv ''values'')
      | _ \<Rightarrow> False)"

text \<open>An image: a source that is a valid URL.\<close>

definition image_rules :: "formats \<Rightarrow> json \<Rightarrow> bool" where
  "image_rules fmt j =
     (case j of
        JObj kv \<Rightarrow>
          optional any_text (property kv ''id'') \<and>
          required (text_where (is_url fmt)) (property kv ''src'') \<and>
          optional any_text (property kv ''alt'') \<and>
          optional any_number (property kv ''width'') \<and>
          optional any_number (property kv ''height'')
      | _ \<Rightarrow> False)"

text \<open>
  A product: title and vendor required and non-empty; a body text, when present, of at
  least 50 characters; tags, options and images optional sequences; at least one variant;
  the publication time, when present, \<^verbatim>\<open>null\<close> or a date-time.
\<close>

definition product_rules :: "formats \<Rightarrow> json \<Rightarrow> bool" where
  "product_rules fmt j =
     (case j of
        JObj kv \<Rightarrow>
          required (text_where (\<lambda>s. s \<noteq> [])) (property kv ''title'') \<and>
          optional (text_where (\<lambda>s. 50 \<le> length s)) (property kv ''body_html'') \<and>
          required (text_where (\<lambda>s. s \<noteq> [])) (property kv ''vendor'') \<and>
          optional any_text (property kv ''product_type'') \<and>
          optional (sequence_of any_text) (property kv ''tags'') \<and>
          optional (sequence_of option_rules) (property kv ''options'') \<and>
          optional (sequence_of (image_rules fmt)) (property kv ''images'') \<and>
          required (nonempty_sequence_of variant_rules) (property kv ''variants'') \<and>
          optional (null_or (text_where (is_datetime fmt))) (property kv ''published_at'')
      | _ \<Rightarrow> False)"

section \<open>The entries of the user file, as the specification words them\<close>





section \<open>Example worlds and payloads\<close>

definition example_uuid :: "nat \<Rightarrow> string" where
  "example_uuid n = ''uuid-'' @ replicate n CHR ''x''"

definition example_clock :: "nat \<Rightarrow> string" where
  "example_clock n = ''2024-05-01T10:00:00.000Z'' @ replicate n CHR ''+''"

text \<open>\<open>first_access\<close>: no document yet. \<open>seeded\<close>: the same world after the first read.\<close>

definition first_access :: world where
  "first_access =
     \<lparr>data_file = None, uuid_source = example_uuid, uuids_drawn = 0,
      clock = example_clock, clock_reads = 0, max_arguments = 120000\<rparr>"

definition seed_product :: ShopifyProduct where
  "seed_product =
     \<lparr>p_id = ''prod-1'',
      title = ''Sample T-Shirt'',
      body_html = Some
        ''<p>A comfy cotton t-shirt inspired by Shopify.</p><p>Perfect for devs.</p>'',
      vendor = ''Dev Merch Co.'',
      product_type = Some ''Shirt'',
      tags = Some [''tshirt'', ''dev'', ''cotton''],
      options = Some seed_options,
      images = Some seed_images,
      variants = seed_variants,
      created_at = example_clock 0,
      updated_at = example_clock 0,
      published_at = Some (example_clock 0)\<rparr>"

definition seeded :: world where
  "seeded = ensureDataFileExists first_access"

definition plain_variant :: "string option \<Rightarrow> rat \<Rightarrow> ShopifyVariant" where
  "plain_variant i p =
     \<lparr>v_id = i, v_sku = None, v_title = None, v_price = Some (Finite p),
      v_compare_at_price = None,
      v_inventory_quantity = None, v_requires_shipping = None, v_taxable = None,
      v_option_values = None\<rparr>"

definition mug_input :: NewProductInput where
  "mug_input =
     \<lparr>in_title = ''Mug'', in_body_html = None, in_vendor = ''Dev Merch Co.'',
      in_product_type = None, in_tags = None, in_options = None, in_images = None,
      in_variants = [plain_variant (Some ''client-id'') 8, plain_variant None (19 / 2)],
      in_published_at = Some None\<rparr>"



text \<open>
  Request bodies. \<open>mug_body\<close> is the body that validates to \<open>mug_input\<close>;
  \<open>free_mug_body\<close> is the same with the second variant's price at 0.
\<close>

definition example_formats :: formats where
  "example_formats =
     \<lparr>is_url = (\<lambda>s. take 8 s = ''https://''),
      is_datetime = (\<lambda>s. s = ''2024-05-01T10:00:00.000Z'')\<rparr>"

definition mug_properties :: "js_number \<Rightarrow> (string \<times> json) list" where
  "mug_properties second_price =
     [(''title'', JStr ''Mug''),
      (''vendor'', JStr ''Dev Merch Co.''),
      (''variants'',
         JArr [JObj [(''id'', JStr ''client-id''), (''price'', JNum (Finite 8))],
               JObj [(''price'', JNum second_price)]]),
      (''published_at'', JNull)]"

definition mug_body :: json where
  "mug_body = JObj (mug_properties (Finite (19 / 2)))"

definition free_mug_body :: json where
  "free_mug_body = JObj (mug_properties 0)"

text \<open>
  \<open>overflow_body\<close> is the body whose text has \<^verbatim>\<open>1e999\<close> as the second variant's price,
  which \<^verbatim>\<open>JSON.parse\<close> reads as \<^verbatim>\<open>Infinity\<close>; \<open>overflow_input\<close> is what it validates
  to.
\<close>

definition overflow_body :: json where
  "overflow_body = JObj (mug_properties Infinity)"

definition overflow_input :: NewProductInput where
  "overflow_input =
     mug_input\<lparr>in_variants :=
       [plain_variant (Some ''client-id'') 8, (plain_variant None 8)\<lparr>v_price := Some Infinity\<rparr>]\<rparr>"

text \<open>
  \<open>bulk_body n\<close> is a body with \<open>n\<close> variants, each with the price 5, and
  \<open>bulk_input n\<close> what it validates to.
\<close>

definition bulk_body :: "nat \<Rightarrow> json" where
  "bulk_body n =
     JObj [(''title'', JStr ''Poster''),
           (''vendor'', JStr ''Dev Merch Co.''),
           (''variants'', JArr (replicate n (JObj [(''price'', JNum (Finite 5))])))]"

definition bulk_input :: "nat \<Rightarrow> NewProductInput" where
  "bulk_input n =
     \<lparr>in_title = ''Poster'', in_body_html = None, in_vendor = ''Dev Merch Co.'',
      in_product_type = None, in_tags = None, in_options = None, in_images = None,
      in_variants = replicate n (plain_variant None 5),
      in_published_at = None\<rparr>"

text \<open>
  \<open>stocked\<close> is a world whose document holds three products, \<open>repeated\<close> one whose
  document holds the same identifier at the first and the third place.
\<close>

definition stocked :: world where
  "stocked =
     seeded\<lparr>data_file := Some (Products
       [seed_product, seed_product\<lparr>p_id := ''prod-2''\<rparr>, seed_product\<lparr>p_id := ''prod-3''\<rparr>])\<rparr>"

definition repeated :: world where
  "repeated =
     seeded\<lparr>data_file := Some (Products
       [seed_product\<lparr>title := ''first a''\<rparr>,
        seed_product\<lparr>p_id := ''prod-2'', title := ''b''\<rparr>,
        seed_product\<lparr>title := ''second a''\<rparr>])\<rparr>"















section \<open>Reading the document\<close>

lemma read_existing:
  "data_file w = Some d \<Longrightarrow> readProductsFromFile w = Inr (stored_products d, w)"
  by (simp add: readProductsFromFile_def ensureDataFileExists_def readFileSync_def
      stored_products_def split: document.splits)

lemma read_stored:
  "data_file w = Some (Products ps) \<Longrightarrow> readProductsFromFile w = Inr (ps, w)"
  by (simp add: read_existing stored_products_def)

lemma seed_value:
  "createSeedProducts w =
     ([\<lparr>p_id = ''prod-1'',
        title = ''Sample T-Shirt'',
        body_html = Some
          ''<p>A comfy cotton t-shirt inspired by Shopify.</p><p>Perfect for devs.</p>'',
        vendor = ''Dev Merch Co.'',
        product_type = Some ''Shirt'',
        tags = Some [''tshirt'', ''dev'', ''cotton''],
        options = Some seed_options,
        images = Some seed_images,
        variants = seed_variants,
        created_at = clock w (clock_reads w),
        updated_at = clock w (clock_reads w),
        published_at = Some (clock w (clock_reads w))\<rparr>],
      w\<lparr>clock_reads := Suc (clock_reads w)\<rparr>)"
  by (simp add: createSeedProducts_def toISOString_now_def)

lemma written_seed_variants: "map written_variant seed_variants = seed_variants"
  by (simp add: seed_variants_def written_variant_def written_number_def)

lemma written_seed_images: "map written_image seed_images = seed_images"
  by (simp add: seed_images_def written_image_def)

lemma seed_written: "JSON_stringify (fst (createSeedProducts w)) = Products (fst (createSeedProducts w))"
  by (simp add: JSON_stringify_def seed_value as_written_def written_seed_variants
      written_seed_images)

lemma read_missing:
  "data_file w = None \<Longrightarrow>
   readProductsFromFile w =
     Inr (fst (createSeedProducts w),
          w\<lparr>clock_reads := Suc (clock_reads w),
            data_file := Some (Products (fst (createSeedProducts w)))\<rparr>)"
  using seed_written[of w]
  by (simp add: readProductsFromFile_def ensureDataFileExists_def readFileSync_def
      writeFileSync_def seed_value)

lemma seeded_eq:
  "seeded = first_access\<lparr>clock_reads := 1, data_file := Some (Products [seed_product])\<rparr>"
  using seed_written[of first_access]
  by (simp add: seeded_def ensureDataFileExists_def first_access_def writeFileSync_def
      seed_value seed_product_def)

lemma seeded_file: "data_file seeded = Some (Products [seed_product])"
  by (simp add: seeded_eq)

lemma seeded_sources:
  "uuid_source seeded = example_uuid" "uuids_drawn seeded = 0"
  "clock seeded = example_clock" "clock_reads seeded = 1"
  "max_arguments seeded = 120000"
  by (simp_all add: seeded_eq first_access_def)

lemma written_seed_product: "as_written seed_product = seed_product"
  by (simp add: as_written_def seed_product_def written_seed_variants written_seed_images)

section \<open>What a write leaves of a collection\<close>

lemma written_number_idem: "written_number (written_number n) = written_number n"
  by (simp add: written_number_def split: option.split js_number.split)

lemma written_variant_idem: "written_variant (written_variant v) = written_variant v"
  by (simp add: written_variant_def written_number_idem option.map_comp comp_def)

lemma written_image_idem: "written_image (written_image i) = written_image i"
  by (simp add: written_image_def written_number_idem option.map_comp comp_def)

lemma as_written_idem: "as_written (as_written p) = as_written p"
  by (simp add: as_written_def written_variant_idem written_image_idem option.map_comp
      comp_def)

lemma as_written_fields:
  "p_id (as_written p) = p_id p" "title (as_written p) = title p"
  "updated_at (as_written p) = updated_at p"
  "length (variants (as_written p)) = length (variants p)"
  "map v_id (variants (as_written p)) = map v_id (variants p)"
  by (simp_all add: as_written_def written_variant_def comp_def)


lemma stringify_as_is:
  "list_all written_as_is ps \<Longrightarrow> JSON_stringify ps = Products ps"
  by (simp add: JSON_stringify_def written_as_is_def list_all_iff map_idI)

lemma stringified_as_is: "list_all written_as_is (map as_written ps)"
  by (simp add: written_as_is_def list_all_iff as_written_idem)

section \<open>Searching a list\<close>

lemma findIndex_None: "findIndex P xs = None \<longleftrightarrow> (\<forall>x\<in>set xs. \<not> P x)"
  by (induction xs) auto

lemma findIndex_Some:
  "findIndex P xs = Some i \<Longrightarrow>
   i < length xs \<and> P (xs ! i) \<and> (\<forall>x\<in>set (take i xs). \<not> P x)"
proof (induction xs arbitrary: i)
  case Nil
  then show ?case by simp
next
  case (Cons x xs)
  show ?case
  proof (cases "P x")
    case True
    with Cons.prems show ?thesis by simp
  next
    case False
    with Cons.prems obtain j where j: "findIndex P xs = Some j" "i = Suc j"
      by auto
    from Cons.IH[OF j(1)] False j(2) show ?thesis by simp
  qed
qed

lemma findIndex_split:
  assumes "findIndex P xs = Some i"
  shows "xs = take i xs @ xs ! i # drop (Suc i) xs"
  using findIndex_Some[OF assms] by (simp add: id_take_nth_drop)

lemma findIndex_exists: "\<exists>x\<in>set xs. P x \<Longrightarrow> \<exists>i. findIndex P xs = Some i"
  using findIndex_None[of P xs] by (cases "findIndex P xs") auto

section \<open>Listing\<close>

lemma below_Infinity: "n \<le> Infinity"
  by (cases n) (simp_all add: less_eq_js_number_def)

lemma fold_min_Min:
  "fold (\<lambda>x m. min m (ToNumber x)) xs a = Min (insert a (ToNumber ` set xs))"
proof (induction xs arbitrary: a)
  case Nil
  then show ?case by simp
next
  case (Cons x xs)
  have "fold (\<lambda>x m. min m (ToNumber x)) (x # xs) a =
      Min (insert (min a (ToNumber x)) (ToNumber ` set xs))"
    using Cons by simp
  also have "\<dots> = Min (insert a (ToNumber ` set (x # xs)))"
    by (cases "set xs = {}") (simp_all add: min.assoc)
  finally show ?case .
qed

lemma Math_min_within:
  assumes "xs \<noteq> []" and "length xs \<le> limit"
  shows "Math_min limit xs = Inr (Min (ToNumber ` set xs))"
proof -
  have "Min (insert Infinity (ToNumber ` set xs)) = Min (ToNumber ` set xs)"
    using assms(1) by (simp add: min_absorb2 below_Infinity)
  with assms(2) show ?thesis by (simp add: Math_min_def fold_min_Min)
qed

lemma Math_min_beyond: "limit < length xs \<Longrightarrow> Math_min limit xs = Inl RangeError"
  by (simp add: Math_min_def)

lemma list_item_within:
  assumes "length (variants p) \<le> limit"
  shows "list_item limit p =
     Inr (ShopifyProduct.extend p
            (ProductListItem.fields (if variants p = [] then 0 else least_price p)))"
proof (cases "variants p = []")
  case True
  then show ?thesis by (simp add: list_item_def)
next
  case False
  then have "Math_min limit (map v_price (variants p)) = Inr (least_price p)"
    using assms by (simp add: Math_min_within least_price_def image_image)
  with False show ?thesis by (simp add: list_item_def)
qed

lemma Array_map_Inr:
  "\<forall>x \<in> set xs. f x = Inr (g x) \<Longrightarrow> Array_map f xs = Inr (map g xs)"
  by (induction xs) simp_all

text \<open>
  Where the document holds the collection \<open>ps\<close> and no product of it has more variants
  than the engine passes as arguments, \<^const>\<open>listProducts\<close> returns one item for each stored
  product, in the order of the document: the item without its \<open>min_price\<close> is the stored
  product, and its \<open>min_price\<close> is the least of the product's prices as numbers, a
  \<^verbatim>\<open>null\<close> price counting as 0, or 0 for a product without variants. The world is left as
  it was.
\<close>

lemma listProducts_within_limit:
  assumes "data_file w = Some (Products ps)"
    and "\<forall>p \<in> set ps. length (variants p) \<le> max_arguments w"
  shows "\<exists>items. listProducts w = (Inr items, w) \<and>
           map ShopifyProduct.truncate items = ps \<and>
           map min_price items = map (\<lambda>p. if variants p = [] then 0 else least_price p) ps"
proof -
  let ?item = "\<lambda>p. ShopifyProduct.extend p
      (ProductListItem.fields (if variants p = [] then 0 else least_price p))"
  have "Array_map (list_item (max_arguments w)) ps = Inr (map ?item ps)"
    by (rule Array_map_Inr) (use assms(2) in \<open>simp add: list_item_within\<close>)
  then have "listProducts w = (Inr (map ?item ps), w)"
    using assms(1) by (simp add: listProducts_def read_stored)
  moreover have "ShopifyProduct.truncate (?item p) = p" for p
    by (simp add: ShopifyProduct.truncate_def ShopifyProduct.extend_def)
  then have "map ShopifyProduct.truncate (map ?item ps) = ps"
    by (simp add: comp_def)
  moreover have "map min_price (map ?item ps) =
      map (\<lambda>p. if variants p = [] then 0 else least_price p) ps"
    by (simp add: ShopifyProduct.extend_def ProductListItem.fields_def comp_def)
  ultimately show ?thesis by blast
qed

lemma list_item_beyond:
  "limit < length (variants p) \<Longrightarrow> list_item limit p = Inl RangeError"
  by (auto simp: list_item_def Math_min_beyond)

section \<open>Reading one product\<close>

text \<open>
  C3, as the claim states it, fails: on the first access, with no document yet,
  \<^const>\<open>getProductById\<close> leaves a document behind, the seed collection.
\<close>

theorem getProductById_first_access_writes:
  "data_file first_access = None \<and>
   map_option data_file (world_after (getProductById ''prod-1'' first_access)) =
     Some (Some (Products [seed_product]))"
  by (simp add: getProductById_def read_missing world_after_def seed_value
      first_access_def seed_product_def)

text \<open>
  C3, amended. \<^const>\<open>getProductById\<close> never faults. Where the document exists, it returns
  the first product of the stored collection with the identifier, or \<open>None\<close> when there
  is none, and leaves the world as it was. Where the document does not exist, it writes
  the seed collection as the document, reading the clock once for the seed's timestamps,
  and answers from the seed collection.
\<close>

theorem getProductById_effect:
  "(\<forall>d. data_file w = Some d \<longrightarrow>
      getProductById pid w = Inr (List.find (\<lambda>p. p_id p = pid) (stored_products d), w)) \<and>
   (data_file w = None \<longrightarrow>
      getProductById pid w =
        Inr (List.find (\<lambda>p. p_id p = pid) (fst (createSeedProducts w)),
             w\<lparr>clock_reads := Suc (clock_reads w),
               data_file := Some (Products (fst (createSeedProducts w)))\<rparr>))"
  by (simp add: getProductById_def read_existing read_missing)

theorem getProductById_effect_witness:
  "data_file first_access = None \<and>
   returned (getProductById ''prod-1'' first_access) = Some (Some seed_product) \<and>
   map_option data_file (world_after (getProductById ''prod-1'' first_access)) =
     Some (Some (Products [seed_product])) \<and>
   data_file seeded = Some (Products [seed_product]) \<and>
   getProductById ''prod-1'' seeded = Inr (Some seed_product, seeded) \<and>
   getProductById ''prod-2'' seeded = Inr (None, seeded)"
proof -
  have none: "data_file first_access = None" by (simp add: first_access_def)
  have seed: "fst (createSeedProducts first_access) = [seed_product]"
    by (simp add: seed_value seed_product_def first_access_def)
  have first: "getProductById ''prod-1'' first_access =
      Inr (List.find (\<lambda>p. p_id p = ''prod-1'') [seed_product],
           first_access\<lparr>clock_reads := Suc (clock_reads first_access),
             data_file := Some (Products [seed_product])\<rparr>)"
    using getProductById_effect[of first_access "''prod-1''"] none seed by simp
  have later: "getProductById pid seeded =
      Inr (List.find (\<lambda>p. p_id p = pid) [seed_product], seeded)" for pid
    using getProductById_effect[of seeded pid] seeded_file
    by (simp add: stored_products_def)
  show ?thesis
    using none seeded_file
    by (simp add: first later returned_def world_after_def seed_product_def)
qed

section \<open>Deleting\<close>

lemma find_as_written:
  "List.find (\<lambda>q. p_id q = pid) (map as_written ys) =
     map_option as_written (List.find (\<lambda>q. p_id q = pid) ys)"
  by (induction ys) (simp_all add: as_written_fields)

lemma find_past:
  "List.find P xs = None \<Longrightarrow> List.find P (xs @ ys) = List.find P ys"
  by (induction xs) (simp_all split: if_splits)

lemma deleteProduct_run:
  assumes "data_file w = Some (Products ps)"
    and "findIndex (\<lambda>p. p_id p = pid) ps = Some i"
  shows "deleteProduct pid w =
      Inr (True, w\<lparr>data_file := Some (JSON_stringify (take i ps @ drop (Suc i) ps))\<rparr>)"
  using assms
  by (simp add: deleteProduct_def read_stored splice1_def writeProductsToFile_def
      writeFileSync_def)

lemma repeated_file:
  "data_file repeated =
     Some (Products [seed_product\<lparr>title := ''first a''\<rparr>,
                     seed_product\<lparr>p_id := ''prod-2'', title := ''b''\<rparr>,
                     seed_product\<lparr>title := ''second a''\<rparr>])"
  by (simp add: repeated_def)

text \<open>
  C7, as the claim states it, fails. The document holds three products, the first and the
  third with the identifier \<^verbatim>\<open>prod-1\<close>. \<^const>\<open>deleteProduct\<close> returns \<open>True\<close> and removes the
  first; \<^const>\<open>getProductById\<close> with the identifier then finds the third.
\<close>

theorem deleteProduct_repeated_id_counterexample:
  "map p_id (catalogue repeated) = [''prod-1'', ''prod-2'', ''prod-1''] \<and>
   returned (deleteProduct ''prod-1'' repeated) = Some True \<and>
   map_option (\<lambda>w. map title (catalogue w)) (world_after (deleteProduct ''prod-1'' repeated)) =
     Some [''b'', ''second a''] \<and>
   map_option (\<lambda>w. map_option (map_option title) (returned (getProductById ''prod-1'' w)))
     (world_after (deleteProduct ''prod-1'' repeated)) = Some (Some (Some ''second a''))"
proof -
  have idx: "findIndex (\<lambda>p. p_id p = ''prod-1'')
      [seed_product\<lparr>title := ''first a''\<rparr>,
       seed_product\<lparr>p_id := ''prod-2'', title := ''b''\<rparr>,
       seed_product\<lparr>title := ''second a''\<rparr>] = Some 0"
    by (simp add: seed_product_def)
  have cat: "catalogue repeated =
      [seed_product\<lparr>title := ''first a''\<rparr>,
       seed_product\<lparr>p_id := ''prod-2'', title := ''b''\<rparr>,
       seed_product\<lparr>title := ''second a''\<rparr>]"
    by (simp add: catalogue_def read_stored[OF repeated_file])
  have ids: "p_id seed_product = ''prod-1''" by (simp add: seed_product_def)
  show ?thesis
    unfolding cat deleteProduct_run[OF repeated_file idx]
    by (simp add: returned_def world_after_def catalogue_def getProductById_def read_stored
        JSON_stringify_def as_written_fields ids comp_def)
qed

text \<open>
  C7, amended. Where the document holds the collection \<open>ps\<close>: if some product has the
  identifier, \<^const>\<open>deleteProduct\<close> returns \<open>True\<close> and writes the collection without the
  first such product, every other product kept in its place in the order (and as it was,
  in a document that the store wrote); a following \<^const>\<open>getProductById\<close> with the
  identifier finds the next product with the identifier, and nothing when no other product
  of the collection has it, so whenever the identifiers of the collection are pairwise
  different. If no product has the identifier, it returns \<open>False\<close> and the world is as it
  was.
\<close>

theorem deleteProduct_spec:
  assumes "data_file w = Some (Products ps)"
  shows "(pid \<in> p_id ` set ps \<longrightarrow>
           (\<exists>xs p ys w'. ps = xs @ p # ys \<and> p_id p = pid \<and> pid \<notin> p_id ` set xs \<and>
              deleteProduct pid w = Inr (True, w') \<and>
              w' = w\<lparr>data_file := Some (JSON_stringify (xs @ ys))\<rparr> \<and>
              (list_all written_as_is ps \<longrightarrow> data_file w' = Some (Products (xs @ ys))) \<and>
              getProductById pid w' =
                Inr (map_option as_written (List.find (\<lambda>q. p_id q = pid) ys), w') \<and>
              (pid \<notin> p_id ` set ys \<longrightarrow> getProductById pid w' = Inr (None, w')) \<and>
              (distinct (map p_id ps) \<longrightarrow> getProductById pid w' = Inr (None, w')))) \<and>
         (pid \<notin> p_id ` set ps \<longrightarrow> deleteProduct pid w = Inr (False, w))"
proof (intro conjI impI)
  assume "pid \<in> p_id ` set ps"
  then obtain i where i: "findIndex (\<lambda>p. p_id p = pid) ps = Some i"
    using findIndex_exists[of ps "\<lambda>p. p_id p = pid"] by auto
  let ?xs = "take i ps" and ?ys = "drop (Suc i) ps"
  let ?w' = "w\<lparr>data_file := Some (JSON_stringify (?xs @ ?ys))\<rparr>"
  have split: "ps = ?xs @ ps ! i # ?ys" by (rule findIndex_split[OF i])
  have here: "p_id (ps ! i) = pid" and before: "pid \<notin> p_id ` set ?xs"
    using findIndex_Some[OF i] by auto
  have del: "deleteProduct pid w = Inr (True, ?w')"
    by (rule deleteProduct_run[OF assms i])
  have as_is: "list_all written_as_is ps \<longrightarrow> data_file ?w' = Some (Products (?xs @ ?ys))"
  proof
    assume "list_all written_as_is ps"
    then have "list_all written_as_is (?xs @ ?ys)"
      by (auto simp: list_all_iff dest: in_set_takeD in_set_dropD)
    then show "data_file ?w' = Some (Products (?xs @ ?ys))"
      by (simp add: stringify_as_is)
  qed
  have "List.find (\<lambda>q. p_id q = pid) ?xs = None"
    using before by (auto simp: find_None_iff)
  then have "List.find (\<lambda>q. p_id q = pid) (?xs @ ?ys) = List.find (\<lambda>q. p_id q = pid) ?ys"
    by (rule find_past)
  then have "List.find (\<lambda>q. p_id q = pid) (map as_written (?xs @ ?ys)) =
      map_option as_written (List.find (\<lambda>q. p_id q = pid) ?ys)"
    by (simp only: find_as_written)
  then have get: "getProductById pid ?w' =
      Inr (map_option as_written (List.find (\<lambda>q. p_id q = pid) ?ys), ?w')"
    by (simp add: getProductById_def read_stored JSON_stringify_def del: map_append)
  have gone: "pid \<notin> p_id ` set ?ys \<longrightarrow> getProductById pid ?w' = Inr (None, ?w')"
  proof
    assume "pid \<notin> p_id ` set ?ys"
    then have "List.find (\<lambda>q. p_id q = pid) ?ys = None"
      by (auto simp: find_None_iff)
    with get show "getProductById pid ?w' = Inr (None, ?w')" by simp
  qed
  have unique: "distinct (map p_id ps) \<longrightarrow> getProductById pid ?w' = Inr (None, ?w')"
  proof
    assume "distinct (map p_id ps)"
    then have "distinct (map p_id (?xs @ ps ! i # ?ys))" using split by simp
    then have "pid \<notin> p_id ` set ?ys" using here by auto
    with gone show "getProductById pid ?w' = Inr (None, ?w')" by blast
  qed
  show "\<exists>xs p ys w'. ps = xs @ p # ys \<and> p_id p = pid \<and> pid \<notin> p_id ` set xs \<and>
      deleteProduct pid w = Inr (True, w') \<and>
      w' = w\<lparr>data_file := Some (JSON_stringify (xs @ ys))\<rparr> \<and>
      (list_all written_as_is ps \<longrightarrow> data_file w' = Some (Products (xs @ ys))) \<and>
      getProductById pid w' =
        Inr (map_option as_written (List.find (\<lambda>q. p_id q = pid) ys), w') \<and>
      (pid \<notin> p_id ` set ys \<longrightarrow> getProductById pid w' = Inr (None, w')) \<and>
      (distinct (map p_id ps) \<longrightarrow> getProductById pid w' = Inr (None, w'))"
    by (intro exI[of _ ?xs] exI[of _ "ps ! i"] exI[of _ ?ys] exI[of _ ?w'] conjI)
       (rule split here before del as_is get gone unique refl)+
next
  assume "pid \<notin> p_id ` set ps"
  then have "findIndex (\<lambda>p. p_id p = pid) ps = None"
    by (auto simp: findIndex_None)
  then show "deleteProduct pid w = Inr (False, w)"
    using assms by (simp add: deleteProduct_def read_stored)
qed

lemma as_written_p_id: "as_written (p\<lparr>p_id := i\<rparr>) = (as_written p)\<lparr>p_id := i\<rparr>"
  by (simp add: as_written_def)

lemma stocked_file:
  "data_file stocked =
     Some (Products [seed_product, seed_product\<lparr>p_id := ''prod-2''\<rparr>,
                     seed_product\<lparr>p_id := ''prod-3''\<rparr>])"
  by (simp add: stocked_def)

lemma stocked_as_is:
  "list_all written_as_is
     [seed_product, seed_product\<lparr>p_id := ''prod-2''\<rparr>, seed_product\<lparr>p_id := ''prod-3''\<rparr>]"
  by (simp add: written_as_is_def as_written_p_id written_seed_product)

theorem deleteProduct_spec_witness:
  "data_file stocked =
     Some (Products [seed_product, seed_product\<lparr>p_id := ''prod-2''\<rparr>,
                     seed_product\<lparr>p_id := ''prod-3''\<rparr>]) \<and>
   list_all written_as_is
     [seed_product, seed_product\<lparr>p_id := ''prod-2''\<rparr>, seed_product\<lparr>p_id := ''prod-3''\<rparr>] \<and>
   distinct (map p_id
     [seed_product, seed_product\<lparr>p_id := ''prod-2''\<rparr>, seed_product\<lparr>p_id := ''prod-3''\<rparr>]) \<and>
   deleteProduct ''prod-2'' stocked =
     Inr (True, stocked\<lparr>data_file :=
       Some (Products [seed_product, seed_product\<lparr>p_id := ''prod-3''\<rparr>])\<rparr>) \<and>
   getProductById ''prod-2''
     (stocked\<lparr>data_file := Some (Products [seed_product, seed_product\<lparr>p_id := ''prod-3''\<rparr>])\<rparr>) =
     Inr (None,
          stocked\<lparr>data_file := Some (Products [seed_product, seed_product\<lparr>p_id := ''prod-3''\<rparr>])\<rparr>) \<and>
   deleteProduct ''prod-9'' stocked = Inr (False, stocked)"
proof -
  define a b c where "a = seed_product" and "b = seed_product\<lparr>p_id := ''prod-2''\<rparr>"
    and "c = seed_product\<lparr>p_id := ''prod-3''\<rparr>"
  have ids: "p_id a = ''prod-1''" "p_id b = ''prod-2''" "p_id c = ''prod-3''"
    by (simp_all add: a_def b_def c_def seed_product_def)
  have stored: "data_file stocked = Some (Products [a, b, c])"
    by (simp add: stocked_file a_def b_def c_def)
  have as_is: "list_all written_as_is [a, b, c]"
    using stocked_as_is by (simp add: a_def b_def c_def)
  have there: "''prod-2'' \<in> p_id ` set [a, b, c]" and absent: "''prod-9'' \<notin> p_id ` set [a, b, c]"
    and uniq: "distinct (map p_id [a, b, c])"
    by (simp_all add: ids)
  from deleteProduct_spec[OF stored, of "''prod-2''"] there
  obtain xs p ys w' where split: "[a, b, c] = xs @ p # ys"
    and p: "p_id p = ''prod-2''" and before: "''prod-2'' \<notin> p_id ` set xs"
    and del: "deleteProduct ''prod-2'' stocked = Inr (True, w')"
    and doc: "list_all written_as_is [a, b, c] \<longrightarrow> data_file w' = Some (Products (xs @ ys))"
    and w': "w' = stocked\<lparr>data_file := Some (JSON_stringify (xs @ ys))\<rparr>"
    and gone: "distinct (map p_id [a, b, c]) \<longrightarrow> getProductById ''prod-2'' w' = Inr (None, w')"
    by blast
  have parts: "xs = [a] \<and> ys = [c]"
  proof (cases xs)
    case Nil
    with split p ids show ?thesis by simp
  next
    case outer: (Cons x xs')
    show ?thesis
    proof (cases xs')
      case Nil
      with outer split show ?thesis by simp
    next
      case (Cons y xs'')
      with outer split have "y = b" by simp
      with outer Cons before ids show ?thesis by simp
    qed
  qed
  from doc as_is w' parts have w'_eq: "w' = stocked\<lparr>data_file := Some (Products [a, c])\<rparr>"
    by simp
  from gone uniq have "getProductById ''prod-2'' w' = Inr (None, w')" by blast
  with w'_eq del have removed:
    "deleteProduct ''prod-2'' stocked = Inr (True, stocked\<lparr>data_file := Some (Products [a, c])\<rparr>)"
    "getProductById ''prod-2'' (stocked\<lparr>data_file := Some (Products [a, c])\<rparr>) =
       Inr (None, stocked\<lparr>data_file := Some (Products [a, c])\<rparr>)"
    by simp_all
  have kept: "deleteProduct ''prod-9'' stocked = Inr (False, stocked)"
    using deleteProduct_spec[OF stored, of "''prod-9''"] absent by blast
  show ?thesis
    using stored as_is uniq removed kept unfolding a_def b_def c_def
    by (intro conjI)
qed

section \<open>Updating\<close>






section \<open>Identifiers of variants\<close>

lemma upt_shift: "[i..<Suc (i + k)] = i # [Suc i..<Suc (i + k)]"
  by (simp add: upt_conv_Cons del: upt_Suc)

lemma zip_upt_Cons:
  "zip [0..<Suc (length vs)] (v # vs) =
     (0, v) # map (\<lambda>(k, x). (Suc k, x)) (zip [0..<length vs] vs)"
  by (simp add: upt_conv_Cons map_Suc_upt[symmetric] zip_map1 del: upt_Suc)

lemma fresh_variants_spec:
  "fresh_variants vs w =
     (map (\<lambda>(k, v). v\<lparr>v_id := Some (uuid_source w (uuids_drawn w + k))\<rparr>)
        (zip [0..<length vs] vs),
      w\<lparr>uuids_drawn := uuids_drawn w + length vs\<rparr>)"
proof (induction vs arbitrary: w)
  case Nil
  then show ?case by simp
next
  case (Cons v vs)
  show ?case
    by (simp add: Cons.IH randomUUID_def zip_upt_Cons comp_def case_prod_unfold
        del: upt_Suc)
qed

lemma positional_id_0:
  "positional_id ex w i 0 =
     (case stored_id ex i of Some s \<Rightarrow> s | None \<Rightarrow> uuid_source w (uuids_drawn w))"
  by (simp add: positional_id_def split: option.split)

lemma positional_id_Suc_None:
  "stored_id ex i = None \<Longrightarrow>
   positional_id ex (w\<lparr>uuids_drawn := Suc (uuids_drawn w)\<rparr>) (Suc i) k =
     positional_id ex w i (Suc k)"
  by (simp add: positional_id_def upt_shift del: upt_Suc split: option.split)

lemma positional_id_Suc_Some:
  "stored_id ex i = Some s \<Longrightarrow> positional_id ex w (Suc i) k = positional_id ex w i (Suc k)"
  by (simp add: positional_id_def upt_shift del: upt_Suc split: option.split)

lemma positional_variants_spec:
  "positional_variants ex i vs w =
     (map (\<lambda>(k, v). v\<lparr>v_id := Some (positional_id ex w i k)\<rparr>) (zip [0..<length vs] vs),
      w\<lparr>uuids_drawn :=
          uuids_drawn w + length (filter (\<lambda>j. stored_id ex j = None) [i..<i + length vs])\<rparr>)"
proof (induction vs arbitrary: i w)
  case Nil
  then show ?case by simp
next
  case (Cons v vs)
  show ?case
  proof (cases "stored_id ex i")
    case None
    then show ?thesis
      by (simp add: Cons.IH randomUUID_def zip_upt_Cons upt_shift comp_def case_prod_unfold
          positional_id_0 positional_id_Suc_None del: upt_Suc)
  next
    case (Some s)
    then show ?thesis
      by (simp add: Cons.IH zip_upt_Cons upt_shift comp_def case_prod_unfold
          positional_id_0 positional_id_Suc_Some del: upt_Suc)
  qed
qed


section \<open>Creating\<close>

lemma createProduct_run:
  assumes "data_file w = Some (Products ps)"
  shows "createProduct input w =
      Inr (created input w,
           w\<lparr>clock_reads := Suc (clock_reads w),
             uuids_drawn := Suc (uuids_drawn w + length (in_variants input)),
             data_file := Some (JSON_stringify (ps @ [created input w]))\<rparr>)"
  using assms
  by (simp add: createProduct_def read_stored toISOString_now_def randomUUID_def Let_def
      fresh_variants_spec created_def writeProductsToFile_def writeFileSync_def)










section \<open>Validation: the combinators\<close>

lemma issues_of_simps [simp]: "issues_of (Inl es) = es" "issues_of (Inr x) = []"
  by (simp_all add: issues_of_def)

lemma ap_Inr_iff: "ap f x = Inr y \<longleftrightarrow> (\<exists>g a. f = Inr g \<and> x = Inr a \<and> y = g a)"
  by (cases f; cases x) (auto simp: ap_def)

lemma isl_ap: "isl (ap f x) \<longleftrightarrow> isl f \<or> isl x"
  by (cases f; cases x) (simp_all add: ap_def)

lemma issues_of_ap: "issues_of (ap f x) = issues_of f @ issues_of x"
  by (cases f; cases x) (simp_all add: ap_def)

lemma refine_Inr_iff: "refine r checks = Inr a \<longleftrightarrow> r = Inr a \<and> checks a = []"
  by (cases r) (auto simp: refine_def)

lemma z_optional_Inr_iff:
  "z_optional schema v = Inr y \<longleftrightarrow>
     (v = None \<and> y = None) \<or> (v \<noteq> None \<and> (\<exists>a. schema v = Inr a \<and> y = Some a))"
  by (cases v; cases "schema v") (auto simp: z_optional_def)

lemma array_items_Inr:
  "array_items schema p i xs = Inr ys \<Longrightarrow>
   list_all2 (\<lambda>x y. \<exists>q. schema q (Some x) = Inr y) xs ys"
proof (induction xs arbitrary: i ys)
  case Nil
  then show ?case by simp
next
  case (Cons x xs)
  from Cons.prems obtain y rest where
    y: "schema (p @ [Index i]) (Some x) = Inr y"
    and rest: "array_items schema p (Suc i) xs = Inr rest"
    and ys: "ys = y # rest"
    by (auto simp: ap_Inr_iff)
  from Cons.IH[OF rest] y ys show ?case by auto
qed

lemma z_array_nonempty_Inr:
  assumes "z_array schema (Some msg) p v = Inr ys"
  shows "ys \<noteq> [] \<and> (\<forall>y \<in> set ys. \<exists>q x. schema q (Some x) = Inr y)"
proof -
  from assms obtain xs where v: "v = Some (JArr xs)"
    by (auto simp: z_array_def split: option.splits json.splits)
  with assms have ne: "xs \<noteq> []" and items: "array_items schema p 0 xs = Inr ys"
    by (auto simp: z_array_def split: if_splits)
  from array_items_Inr[OF items]
  have rel: "list_all2 (\<lambda>x y. \<exists>q. schema q (Some x) = Inr y) xs ys" .
  then have "length xs = length ys" by (rule list_all2_lengthD)
  with ne have "ys \<noteq> []" by auto
  moreover have "\<forall>y \<in> set ys. \<exists>q x. schema q (Some x) = Inr y"
    using rel by (induction rule: list_all2_induct) auto
  ultimately show ?thesis by simp
qed

lemma variantSchema_price:
  assumes "variantSchema p v = Inr x"
  shows "priced x"
proof -
  from assms obtain kv where v: "v = Some (JObj kv)"
    by (auto simp: variantSchema_def split: option.splits json.splits)
  from assms[unfolded v variantSchema_def] show ?thesis
    by (auto simp: ap_Inr_iff refine_Inr_iff check_def priced_def split: if_splits)
qed

lemma variants_field_Inr:
  assumes "variants_field v = Inr vs"
  shows "vs \<noteq> [] \<and> list_all priced vs"
  using z_array_nonempty_Inr[OF assms[unfolded variants_field_def]]
  by (auto simp: list_all_iff dest: variantSchema_price)

lemma createProductSchema_variants:
  assumes "createProductSchema fmt body = Inr payload"
  shows "in_variants payload \<noteq> [] \<and> list_all priced (in_variants payload)"
proof -
  from assms obtain kv where body: "body = JObj kv"
    by (auto simp: createProductSchema_def split: json.splits)
  from assms[unfolded body createProductSchema_def]
  have "variants_field (property kv ''variants'') = Inr (in_variants payload)"
    by (auto simp: ap_Inr_iff)
  then show ?thesis by (rule variants_field_Inr)
qed

lemma updateProductSchema_variants:
  assumes "updateProductSchema fmt body = Inr payload"
    and "up_variants payload = Some vs"
  shows "vs \<noteq> [] \<and> list_all priced vs"
proof -
  from assms(1) obtain kv where body: "body = JObj kv"
    by (auto simp: updateProductSchema_def split: json.splits)
  from assms(1)[unfolded body updateProductSchema_def]
  have "z_optional variants_field (property kv ''variants'') = Inr (up_variants payload)"
    by (auto simp: ap_Inr_iff)
  with assms(2) have "variants_field (property kv ''variants'') = Inr vs"
    by (auto simp: z_optional_Inr_iff)
  then show ?thesis by (rule variants_field_Inr)
qed

section \<open>The invariant of the catalogue\<close>

lemma read_any: "readProductsFromFile w = Inr (catalogue w, ensureDataFileExists w)"
proof (cases "data_file w")
  case None
  then show ?thesis
    using seed_written[of w]
    by (simp add: catalogue_def read_missing ensureDataFileExists_def seed_value
        writeFileSync_def)
next
  case (Some d)
  then show ?thesis
    by (simp add: catalogue_def read_existing ensureDataFileExists_def)
qed

lemma catalogue_stored: "data_file w = Some (Products ps) \<Longrightarrow> catalogue w = ps"
  by (simp add: catalogue_def read_stored)

lemma catalogue_written:
  "data_file w = Some (JSON_stringify ps) \<Longrightarrow> catalogue w = map as_written ps"
  by (simp add: JSON_stringify_def catalogue_stored)

lemma catalogue_ensure: "catalogue (ensureDataFileExists w) = catalogue w"
proof (cases "data_file w")
  case None
  then show ?thesis
    using seed_written[of w]
    by (simp add: catalogue_def read_missing read_stored ensureDataFileExists_def seed_value
        writeFileSync_def)
next
  case (Some d)
  then show ?thesis by (simp add: ensureDataFileExists_def)
qed

lemma fresh_variants_prices: "map v_price (fst (fresh_variants vs w)) = map v_price vs"
  unfolding fresh_variants_spec fst_conv by (rule nth_equalityI) simp_all

lemma positional_variants_prices:
  "map v_price (fst (positional_variants ex i vs w)) = map v_price vs"
  unfolding positional_variants_spec fst_conv by (rule nth_equalityI) simp_all

lemma priced_null_or_priced: "priced v \<Longrightarrow> null_or_priced v"
  by (simp add: priced_def null_or_priced_def split: option.splits)

lemma same_prices:
  assumes "map v_price xs = map v_price ys" and "list_all null_or_priced ys"
  shows "list_all null_or_priced xs"
proof -
  have "list_all (\<lambda>n. case n of None \<Rightarrow> True | Some n \<Rightarrow> 0 < n) (map v_price ys)"
    using assms(2) by (simp add: list_all_iff null_or_priced_def)
  then have "list_all (\<lambda>n. case n of None \<Rightarrow> True | Some n \<Rightarrow> 0 < n) (map v_price xs)"
    by (simp only: assms(1))
  then show ?thesis by (simp add: list_all_iff null_or_priced_def)
qed

lemma nearly_well_formed_prices:
  assumes "map v_price (variants p) = map v_price vs" and "vs \<noteq> []"
    and "list_all null_or_priced vs"
  shows "nearly_well_formed p"
proof -
  from assms(1) have "length (variants p) = length vs" by (rule map_eq_imp_length_eq)
  with assms(2) have "variants p \<noteq> []" by auto
  with same_prices[OF assms(1,3)] show ?thesis by (simp add: nearly_well_formed_def)
qed

lemma written_null_or_priced: "null_or_priced v \<Longrightarrow> null_or_priced (written_variant v)"
  by (auto simp: null_or_priced_def written_variant_def written_number_def
      split: option.splits js_number.splits)

lemma written_nearly_well_formed:
  "nearly_well_formed p \<Longrightarrow> nearly_well_formed (as_written p)"
  by (simp add: nearly_well_formed_def as_written_def list_all_iff written_null_or_priced)

text \<open>What holds of a collection that was written: the invariant, and nothing a write changes.\<close>

lemma written_collection:
  assumes "\<forall>p \<in> set ps. nearly_well_formed p"
  shows "\<forall>p \<in> set (map as_written ps). nearly_well_formed p \<and> written_as_is p"
  using assms by (simp add: written_nearly_well_formed written_as_is_def as_written_idem)

lemma createProduct_catalogue:
  assumes "createProduct input w = Inr (p, w')"
  shows "catalogue w' = map as_written (catalogue w @ [p]) \<and>
         map v_price (variants p) = map v_price (in_variants input)"
proof -
  obtain vs w4 where fv: "fresh_variants (in_variants input)
      (snd (randomUUID (snd (toISOString_now (ensureDataFileExists w))))) = (vs, w4)"
    by (cases "fresh_variants (in_variants input)
      (snd (randomUUID (snd (toISOString_now (ensureDataFileExists w)))))") simp
  from fresh_variants_prices[of "in_variants input"
      "snd (randomUUID (snd (toISOString_now (ensureDataFileExists w))))"] fv
  have prices: "map v_price vs = map v_price (in_variants input)" by simp
  from assms fv have "variants p = vs"
    and "data_file w' = Some (JSON_stringify (catalogue w @ [p]))"
    by (auto simp: createProduct_def read_any Let_def toISOString_now_def randomUUID_def
        writeProductsToFile_def writeFileSync_def split: prod.splits)
  with prices show ?thesis by (simp add: catalogue_written)
qed

lemma updateProduct_catalogue:
  assumes "updateProduct pid input w = Inr (r, w')"
  shows "(r = None \<and> findIndex (\<lambda>p. p_id p = pid) (catalogue w) = None \<and>
          catalogue w' = catalogue w) \<or>
         (\<exists>idx u. r = Some u \<and> idx < length (catalogue w) \<and>
            findIndex (\<lambda>p. p_id p = pid) (catalogue w) = Some idx \<and>
            catalogue w' = map as_written ((catalogue w)[idx := u]) \<and>
            map v_price (variants u) =
              map v_price (case up_variants input of
                             Some vs \<Rightarrow> vs
                           | None \<Rightarrow> variants (catalogue w ! idx)))"
proof (cases "findIndex (\<lambda>p. p_id p = pid) (catalogue w)")
  case None
  with assms show ?thesis
    by (auto simp: updateProduct_def read_any catalogue_ensure)
next
  case (Some idx)
  let ?w1 = "ensureDataFileExists w"
  let ?ex = "catalogue w ! idx"
  have idx: "idx < length (catalogue w)" using findIndex_Some[OF Some] by simp
  show ?thesis
  proof (cases "up_variants input")
    case None
    with assms Some have "r = Some ((spread ?ex input)\<lparr>variants := variants ?ex,
        updated_at := clock ?w1 (clock_reads ?w1)\<rparr>)"
      and "data_file w' = Some (JSON_stringify ((catalogue w)[idx := (spread ?ex input)
        \<lparr>variants := variants ?ex, updated_at := clock ?w1 (clock_reads ?w1)\<rparr>]))"
      by (auto simp: updateProduct_def read_any Let_def toISOString_now_def
          writeProductsToFile_def writeFileSync_def)
    with None idx \<open>findIndex (\<lambda>p. p_id p = pid) (catalogue w) = Some idx\<close> show ?thesis
      by (intro disjI2 exI[of _ idx]) (simp add: catalogue_written)
  next
    case (Some incoming)
    obtain vs w2 where pv: "positional_variants (variants ?ex) 0 incoming ?w1 = (vs, w2)"
      by (cases "positional_variants (variants ?ex) 0 incoming ?w1") simp
    from positional_variants_prices[of "variants ?ex" 0 incoming ?w1] pv
    have prices: "map v_price vs = map v_price incoming" by simp
    from assms \<open>findIndex (\<lambda>p. p_id p = pid) (catalogue w) = Some idx\<close> Some pv
    have "r = Some ((spread ?ex input)\<lparr>variants := vs,
        updated_at := clock w2 (clock_reads w2)\<rparr>)"
      and "data_file w' = Some (JSON_stringify ((catalogue w)[idx := (spread ?ex input)
        \<lparr>variants := vs, updated_at := clock w2 (clock_reads w2)\<rparr>]))"
      by (auto simp: updateProduct_def read_any Let_def toISOString_now_def
          writeProductsToFile_def writeFileSync_def)
    with Some idx prices \<open>findIndex (\<lambda>p. p_id p = pid) (catalogue w) = Some idx\<close>
    show ?thesis
      by (intro disjI2 exI[of _ idx]) (simp add: catalogue_written)
  qed
qed

lemma deleteProduct_catalogue:
  assumes "deleteProduct pid w = Inr (ok, w')"
  shows "catalogue w' = catalogue w \<or>
         (\<exists>xs. catalogue w' = map as_written xs \<and> set xs \<subseteq> set (catalogue w))"
proof (cases "findIndex (\<lambda>p. p_id p = pid) (catalogue w)")
  case None
  with assms show ?thesis
    by (auto simp: deleteProduct_def read_any catalogue_ensure)
next
  case (Some idx)
  with assms have "data_file w' = Some (JSON_stringify (splice1 idx (catalogue w)))"
    by (auto simp: deleteProduct_def read_any writeProductsToFile_def writeFileSync_def)
  then have "catalogue w' = map as_written (splice1 idx (catalogue w))"
    by (rule catalogue_written)
  moreover have "set (splice1 idx (catalogue w)) \<subseteq> set (catalogue w)"
    by (auto simp: splice1_def dest: in_set_takeD in_set_dropD)
  ultimately show ?thesis by blast
qed

lemma createProduct_total: "\<exists>p w'. createProduct input w = Inr (p, w')"
  by (simp add: createProduct_def read_any Let_def case_prod_unfold)

lemma updateProduct_total: "\<exists>r w'. updateProduct pid input w = Inr (r, w')"
  by (simp add: updateProduct_def read_any Let_def case_prod_unfold split: option.split)

lemma deleteProduct_absent:
  "findIndex (\<lambda>p. p_id p = pid) (catalogue w) = None \<Longrightarrow>
   deleteProduct pid w = Inr (False, ensureDataFileExists w)"
  by (simp add: deleteProduct_def read_any)

lemma POST_invariant:
  assumes "\<forall>p \<in> set (catalogue w). nearly_well_formed p \<and> written_as_is p"
  shows "\<forall>p \<in> set (catalogue (snd (POST fmt body w))). nearly_well_formed p \<and> written_as_is p"
proof (cases "createProductSchema fmt body")
  case (Inl issues)
  with assms show ?thesis by (simp add: POST_def)
next
  case (Inr payload)
  show ?thesis
  proof (cases "createProduct payload w")
    case (Inl e)
    with Inr assms show ?thesis by (simp add: POST_def)
  next
    case created: (Inr r)
    obtain p w1 where r: "r = (p, w1)" by (cases r)
    from createProduct_catalogue[OF created[unfolded r]]
    have cat: "catalogue w1 = map as_written (catalogue w @ [p])"
      and prices: "map v_price (variants p) = map v_price (in_variants payload)" by simp_all
    from createProductSchema_variants[OF Inr]
    have "in_variants payload \<noteq> []" "list_all null_or_priced (in_variants payload)"
      by (auto simp: list_all_iff priced_null_or_priced)
    with prices have "nearly_well_formed p" by (rule nearly_well_formed_prices)
    with assms have "\<forall>q \<in> set (catalogue w @ [p]). nearly_well_formed q" by simp
    from written_collection[OF this] cat Inr created r show ?thesis by (simp add: POST_def)
  qed
qed

lemma PUT_invariant:
  assumes "\<forall>p \<in> set (catalogue w). nearly_well_formed p \<and> written_as_is p"
  shows "\<forall>p \<in> set (catalogue (snd (PUT fmt pid body w))). nearly_well_formed p \<and> written_as_is p"
proof (cases "updateProductSchema fmt body")
  case (Inl issues)
  with assms show ?thesis by (simp add: PUT_def)
next
  case (Inr payload)
  show ?thesis
  proof (cases "updateProduct pid payload w")
    case (Inl e)
    with Inr assms show ?thesis by (simp add: PUT_def)
  next
    case updated: (Inr r)
    obtain res w1 where r: "r = (res, w1)" by (cases r)
    have w1: "snd (PUT fmt pid body w) = w1"
      using Inr updated r by (cases res) (simp_all add: PUT_def)
    from updateProduct_catalogue[OF updated[unfolded r]]
    consider "catalogue w1 = catalogue w"
      | idx u where "idx < length (catalogue w)"
        "catalogue w1 = map as_written ((catalogue w)[idx := u])"
        "map v_price (variants u) =
           map v_price (case up_variants payload of
                          Some vs \<Rightarrow> vs
                        | None \<Rightarrow> variants (catalogue w ! idx))"
      by auto
    then have "\<forall>p \<in> set (catalogue w1). nearly_well_formed p \<and> written_as_is p"
    proof cases
      case 1
      with assms show ?thesis by simp
    next
      case 2
      have old: "nearly_well_formed (catalogue w ! idx)" using assms 2(1) by simp
      have "nearly_well_formed u"
      proof (cases "up_variants payload")
        case None
        with 2(3) have "map v_price (variants u) = map v_price (variants (catalogue w ! idx))"
          by simp
        then show ?thesis
          by (rule nearly_well_formed_prices) (use old in \<open>simp_all add: nearly_well_formed_def\<close>)
      next
        case (Some vs)
        from updateProductSchema_variants[OF Inr Some]
        have "vs \<noteq> []" "list_all null_or_priced vs"
          by (auto simp: list_all_iff priced_null_or_priced)
        with 2(3) Some show ?thesis by (auto intro: nearly_well_formed_prices)
      qed
      with assms have "\<forall>q \<in> set ((catalogue w)[idx := u]). nearly_well_formed q"
        by (auto dest!: set_update_subset_insert[THEN subsetD])
      from written_collection[OF this] 2(2) show ?thesis by simp
    qed
    with w1 show ?thesis by simp
  qed
qed

lemma DELETE_invariant:
  assumes "\<forall>p \<in> set (catalogue w). nearly_well_formed p \<and> written_as_is p"
  shows "\<forall>p \<in> set (catalogue (snd (DELETE pid w))). nearly_well_formed p \<and> written_as_is p"
proof (cases "deleteProduct pid w")
  case (Inl e)
  with assms show ?thesis by (simp add: DELETE_def)
next
  case (Inr r)
  obtain ok w1 where r: "r = (ok, w1)" by (cases r)
  from deleteProduct_catalogue[OF Inr[unfolded r]]
  consider "catalogue w1 = catalogue w"
    | xs where "catalogue w1 = map as_written xs" "set xs \<subseteq> set (catalogue w)"
    by auto
  then have "\<forall>p \<in> set (catalogue w1). nearly_well_formed p \<and> written_as_is p"
  proof cases
    case 1
    with assms show ?thesis by simp
  next
    case 2
    with assms have "\<forall>q \<in> set xs. nearly_well_formed q" by auto
    from written_collection[OF this] 2(1) show ?thesis by simp
  qed
  with Inr r show ?thesis by (simp add: DELETE_def)
qed

lemma serve_invariant:
  "\<forall>p \<in> set (catalogue w). nearly_well_formed p \<and> written_as_is p \<Longrightarrow>
   \<forall>p \<in> set (catalogue (serve fmt rs w)). nearly_well_formed p \<and> written_as_is p"
proof (induction rs arbitrary: w)
  case Nil
  then show ?case by simp
next
  case (Cons r rs)
  show ?case
  proof (cases r)
    case (Create body)
    with Cons.IH[OF POST_invariant[OF Cons.prems]] show ?thesis by simp
  next
    case (Update pid body)
    with Cons.IH[OF PUT_invariant[OF Cons.prems]] show ?thesis by simp
  next
    case (Delete pid)
    with Cons.IH[OF DELETE_invariant[OF Cons.prems]] show ?thesis by simp
  qed
qed

lemma seed_well_formed:
  "\<forall>p \<in> set (fst (createSeedProducts w)). nearly_well_formed p \<and> written_as_is p"
  by (simp add: seed_value nearly_well_formed_def null_or_priced_def seed_variants_def
      written_as_is_def as_written_def written_seed_images written_variant_def
      written_number_def less_js_number_def less_eq_js_number_def zero_js_number_def)

lemma initial_invariant:
  assumes "initial_world w"
  shows "\<forall>p \<in> set (catalogue w). nearly_well_formed p \<and> written_as_is p"
proof -
  from assms consider "data_file w = None" | "data_file w = Some (Products [])"
    | w0 where "data_file w = Some (Products (fst (createSeedProducts w0)))"
    by (auto simp: initial_world_def)
  then show ?thesis
  proof cases
    case 1
    then have "catalogue w = fst (createSeedProducts w)"
      by (simp add: catalogue_def read_missing)
    then show ?thesis using seed_well_formed[of w] by simp
  next
    case 2
    then show ?thesis by (simp add: catalogue_stored)
  next
    case 3
    then show ?thesis using seed_well_formed[of w0] by (simp add: catalogue_stored)
  qed
qed

text \<open>
  What the store keeps of the invariant. From a world with no document yet, with the
  empty collection or with the seed collection, after any sequence of requests to create
  (with any body: a body the schema rejects is answered without a call of the store), to
  update and to delete, every product of the stored collection has at least one variant,
  every price of it is \<^verbatim>\<open>null\<close> or a number above zero, and every number of it is finite
  or \<^verbatim>\<open>null\<close>.
\<close>

lemma catalogue_nearly_invariant:
  assumes "initial_world w"
  shows "\<forall>p \<in> set (catalogue (serve fmt rs w)).
           variants p \<noteq> [] \<and>
           (\<forall>v \<in> set (variants p). case v_price v of None \<Rightarrow> True | Some n \<Rightarrow> 0 < n) \<and>
           written_as_is p"
  using serve_invariant[OF initial_invariant[OF assms], of fmt rs]
  by (simp add: nearly_well_formed_def null_or_priced_def list_all_iff)

section \<open>Validation: the schema against the rules\<close>

lemma isl_refine: "isl (refine r checks) \<longleftrightarrow> isl r \<or> (\<exists>a. r = Inr a \<and> checks a \<noteq> [])"
  by (cases r) (simp_all add: refine_def)

lemma isl_z_optional: "isl (z_optional schema v) \<longleftrightarrow> v \<noteq> None \<and> isl (schema v)"
  by (cases v; cases "schema v") (simp_all add: z_optional_def)

lemma isl_z_nullable: "isl (z_nullable schema v) \<longleftrightarrow> v \<noteq> Some JNull \<and> isl (schema v)"
  by (cases "schema v") (auto simp: z_nullable_def split: option.splits json.splits)

lemma isl_z_string: "isl (z_string p v) \<longleftrightarrow> \<not> required any_text v"
  by (simp add: z_string_def required_def any_text_def text_where_def
      split: option.splits json.splits)

lemma z_string_Inr_iff: "z_string p v = Inr s \<longleftrightarrow> v = Some (JStr s)"
  by (simp add: z_string_def split: option.splits json.splits)

lemma isl_z_number_plain: "isl (z_number_plain p v) \<longleftrightarrow> \<not> required any_number v"
  by (simp add: z_number_plain_def required_def any_number_def number_where_def
      split: option.splits json.splits)

lemma z_number_plain_Inr_iff: "z_number_plain p v = Inr n \<longleftrightarrow> v = Some (JNum n)"
  by (simp add: z_number_plain_def split: option.splits json.splits)

lemma z_number_Inr_iff: "z_number a b p v = Inr n \<longleftrightarrow> v = Some (JNum n)"
  by (simp add: z_number_def split: option.splits json.splits)

lemma isl_z_number: "isl (z_number a b p v) \<longleftrightarrow> \<not> required any_number v"
  by (simp add: z_number_def required_def any_number_def number_where_def
      split: option.splits json.splits)

lemma isl_z_boolean: "isl (z_boolean p v) \<longleftrightarrow> \<not> required is_flag v"
  by (simp add: z_boolean_def required_def is_flag_def split: option.splits json.splits)

lemma check_Nil_iff: "check ok p msg = [] \<longleftrightarrow> ok"
  by (simp add: check_def)

lemma isl_text_check:
  "isl (refine (z_string p v) (\<lambda>s. check (P s) (q s) (m s))) \<longleftrightarrow> \<not> required (text_where P) v"
  by (auto simp: isl_refine z_string_Inr_iff check_Nil_iff isl_z_string required_def
      any_text_def text_where_def split: option.splits json.splits)

lemma isl_array_items:
  assumes "\<And>q x. isl (schema q (Some x)) \<longleftrightarrow> \<not> ok x"
  shows "isl (array_items schema p i xs) \<longleftrightarrow> \<not> list_all ok xs"
  by (induction xs arbitrary: i) (simp_all add: isl_ap assms)

lemma isl_z_array:
  assumes "\<And>q x. isl (schema q (Some x)) \<longleftrightarrow> \<not> ok x"
  shows "isl (z_array schema None p v) \<longleftrightarrow> \<not> required (sequence_of ok) v"
    and "isl (z_array schema (Some msg) p v) \<longleftrightarrow> \<not> required (nonempty_sequence_of ok) v"
  by (simp_all add: z_array_def required_def sequence_of_def nonempty_sequence_of_def
      isl_array_items[of schema ok, OF assms] split: option.splits json.splits)

lemma isl_optional:
  assumes "isl (schema v) \<longleftrightarrow> \<not> required P v"
  shows "isl (z_optional schema v) \<longleftrightarrow> \<not> optional P v"
  using assms by (cases v) (simp_all add: isl_z_optional required_def optional_def)

lemma is_integer_whole: "is_integer n \<longleftrightarrow> whole n"
  by (cases n) (auto simp: is_integer_def whole_def Ints_def)

lemma isl_variantSchema: "isl (variantSchema p (Some x)) \<longleftrightarrow> \<not> variant_rules x"
proof (cases x)
  case (JObj kv)
  have price: "isl (refine
      (z_number ''Price is required'' ''Price must be a number'' (p @ [Key ''price''])
         (property kv ''price''))
      (\<lambda>n. check (0 < n) (p @ [Key ''price'']) ''Price must be greater than 0'')) \<longleftrightarrow>
      \<not> required (number_where (\<lambda>n. 0 < n)) (property kv ''price'')"
    by (auto simp: isl_refine z_number_Inr_iff check_Nil_iff isl_z_number required_def
        any_number_def number_where_def split: option.splits json.splits)
  have compare: "isl (z_optional (z_nullable (z_number_plain (p @ [Key ''compare_at_price''])))
      (property kv ''compare_at_price'')) \<longleftrightarrow>
      \<not> optional (null_or any_number) (property kv ''compare_at_price'')"
    by (auto simp: isl_z_optional isl_z_nullable isl_z_number_plain optional_def required_def
        null_or_def split: option.splits json.splits)
  have quantity: "isl (z_optional
      (\<lambda>u. refine (z_number_plain (p @ [Key ''inventory_quantity'']) u)
         (\<lambda>n. check (is_integer n) (p @ [Key ''inventory_quantity''])
                 ''Expected integer, received float'' @
               check (0 \<le> n) (p @ [Key ''inventory_quantity''])
                 ''Number must be greater than or equal to 0''))
      (property kv ''inventory_quantity'')) \<longleftrightarrow>
      \<not> optional (number_where (\<lambda>n. whole n \<and> 0 \<le> n)) (property kv ''inventory_quantity'')"
    by (auto simp: isl_z_optional isl_refine z_number_plain_Inr_iff check_Nil_iff
        isl_z_number_plain is_integer_whole optional_def required_def any_number_def
        number_where_def split: option.splits json.splits)
  have strings: "isl (z_optional (z_string q) v) \<longleftrightarrow> \<not> optional any_text v" for q v
    by (rule isl_optional) (rule isl_z_string)
  have flags: "isl (z_optional (z_boolean q) v) \<longleftrightarrow> \<not> optional is_flag v" for q v
    by (rule isl_optional) (rule isl_z_boolean)
  have texts: "isl (z_optional (z_array z_string None q) v) \<longleftrightarrow>
      \<not> optional (sequence_of any_text) v" for q v
    by (rule isl_optional) (simp add: isl_z_array(1)[of z_string any_text] isl_z_string
        required_def)
  show ?thesis
    unfolding JObj variantSchema_def variant_rules_def
    by (auto simp: isl_ap price compare quantity strings flags texts)
qed (simp_all add: variantSchema_def variant_rules_def invalid_type_def)

lemma isl_optionSchema: "isl (optionSchema p (Some x)) \<longleftrightarrow> \<not> option_rules x"
proof (cases x)
  case (JObj kv)
  have name: "isl (refine (z_string (p @ [Key ''name'']) (property kv ''name''))
      (\<lambda>s. check (1 \<le> length s) (p @ [Key ''name'']) ''Option name is required'')) \<longleftrightarrow>
      \<not> required (text_where (\<lambda>s. s \<noteq> [])) (property kv ''name'')"
    by (simp add: isl_text_check Suc_le_eq)
  have strings: "isl (z_optional (z_string q) v) \<longleftrightarrow> \<not> optional any_text v" for q v
    by (rule isl_optional) (rule isl_z_string)
  have texts: "isl (z_array z_string (Some m) q v) \<longleftrightarrow>
      \<not> required (nonempty_sequence_of any_text) v" for m q v
    by (simp add: isl_z_array(2)[of z_string any_text] isl_z_string required_def)
  show ?thesis
    unfolding JObj optionSchema_def option_rules_def json.case option.case isl_ap
      name strings texts
    by auto
qed (simp_all add: optionSchema_def option_rules_def invalid_type_def)

lemma isl_imageSchema: "isl (imageSchema fmt p (Some x)) \<longleftrightarrow> \<not> image_rules fmt x"
proof (cases x)
  case (JObj kv)
  have source: "isl (refine (z_string (p @ [Key ''src'']) (property kv ''src''))
      (\<lambda>s. check (is_url fmt s) (p @ [Key ''src'']) ''Image must be a valid URL'')) \<longleftrightarrow>
      \<not> required (text_where (is_url fmt)) (property kv ''src'')"
    by (simp add: isl_text_check)
  have strings: "isl (z_optional (z_string q) v) \<longleftrightarrow> \<not> optional any_text v" for q v
    by (rule isl_optional) (rule isl_z_string)
  have numbers: "isl (z_optional (z_number_plain q) v) \<longleftrightarrow> \<not> optional any_number v" for q v
    by (rule isl_optional) (rule isl_z_number_plain)
  show ?thesis
    unfolding JObj imageSchema_def image_rules_def
    by (auto simp: isl_ap source strings numbers)
qed (simp_all add: imageSchema_def image_rules_def invalid_type_def)

lemma isl_createProductSchema:
  "isl (createProductSchema fmt body) \<longleftrightarrow> \<not> product_rules fmt body"
proof (cases body)
  case (JObj kv)
  have title: "isl (title_field v) \<longleftrightarrow> \<not> required (text_where (\<lambda>s. s \<noteq> [])) v" for v
    by (simp add: title_field_def isl_text_check Suc_le_eq)
  have vendor: "isl (vendor_field v) \<longleftrightarrow> \<not> required (text_where (\<lambda>s. s \<noteq> [])) v" for v
    by (simp add: vendor_field_def isl_text_check Suc_le_eq)
  have body_html: "isl (z_optional body_html_field v) \<longleftrightarrow>
      \<not> optional (text_where (\<lambda>s. 50 \<le> length s)) v" for v
    by (rule isl_optional) (simp add: body_html_field_def isl_text_check)
  have strings: "isl (z_optional (z_string q) v) \<longleftrightarrow> \<not> optional any_text v" for q v
    by (rule isl_optional) (rule isl_z_string)
  have tags: "isl (z_optional (z_array z_string None q) v) \<longleftrightarrow>
      \<not> optional (sequence_of any_text) v" for q v
    by (rule isl_optional) (simp add: isl_z_array(1)[of z_string any_text] isl_z_string
        required_def)
  have options: "isl (z_optional (z_array optionSchema None q) v) \<longleftrightarrow>
      \<not> optional (sequence_of option_rules) v" for q v
    by (rule isl_optional) (simp add: isl_z_array(1)[of optionSchema option_rules]
        isl_optionSchema)
  have images: "isl (z_optional (z_array (imageSchema fmt) None q) v) \<longleftrightarrow>
      \<not> optional (sequence_of (image_rules fmt)) v" for q v
    by (rule isl_optional) (simp add: isl_z_array(1)[of "imageSchema fmt" "image_rules fmt"]
        isl_imageSchema)
  have variants: "isl (variants_field v) \<longleftrightarrow>
      \<not> required (nonempty_sequence_of variant_rules) v" for v
    by (simp add: variants_field_def isl_z_array(2)[of variantSchema variant_rules]
        isl_variantSchema)
  have published: "isl (published_at_field fmt v) \<longleftrightarrow>
      \<not> optional (null_or (text_where (is_datetime fmt))) v" for v
    by (auto simp: published_at_field_def isl_z_nullable isl_z_optional isl_text_check
        optional_def required_def null_or_def split: option.splits json.splits)
  show ?thesis
    unfolding JObj createProductSchema_def product_rules_def
    by (auto simp: isl_ap title vendor body_html strings tags options images variants
        published)
qed (simp_all add: createProductSchema_def product_rules_def invalid_type_def)

section \<open>Validation: the issues of a rejected payload\<close>

lemma Inl_issues_of: "isl r \<Longrightarrow> r = Inl (issues_of r)"
  by (cases r) simp_all

lemma issues_of_createProductSchema:
  "issues_of (createProductSchema fmt (JObj kv)) =
     issues_of (title_field (property kv ''title'')) @
     issues_of (z_optional body_html_field (property kv ''body_html'')) @
     issues_of (vendor_field (property kv ''vendor'')) @
     issues_of (z_optional (z_string [Key ''product_type'']) (property kv ''product_type'')) @
     issues_of (z_optional (z_array z_string None [Key ''tags'']) (property kv ''tags'')) @
     issues_of (z_optional (z_array optionSchema None [Key ''options'']) (property kv ''options'')) @
     issues_of (z_optional (z_array (imageSchema fmt) None [Key ''images''])
       (property kv ''images'')) @
     issues_of (variants_field (property kv ''variants'')) @
     issues_of (published_at_field fmt (property kv ''published_at''))"
  by (simp add: createProductSchema_def issues_of_ap)

lemma rejected_with:
  assumes "e \<in> set (issues_of (createProductSchema fmt body))"
  shows "\<exists>issues. createProductSchema fmt body = Inl issues \<and> e \<in> set issues"
proof (cases "createProductSchema fmt body")
  case (Inl issues)
  with assms show ?thesis by simp
next
  case (Inr payload)
  with assms show ?thesis by simp
qed

lemma array_items_issue:
  "k < length xs \<Longrightarrow>
   e \<in> set (issues_of (schema (p @ [Index (i + k)]) (Some (xs ! k)))) \<Longrightarrow>
   e \<in> set (issues_of (array_items schema p i xs))"
proof (induction xs arbitrary: i k)
  case Nil
  then show ?case by simp
next
  case (Cons x xs)
  show ?case
  proof (cases k)
    case 0
    with Cons.prems show ?thesis by (simp add: issues_of_ap)
  next
    case (Suc j)
    with Cons.prems have "j < length xs"
      and "e \<in> set (issues_of (schema (p @ [Index (Suc i + j)]) (Some (xs ! j))))"
      by simp_all
    from Cons.IH[OF this] show ?thesis by (simp add: issues_of_ap)
  qed
qed

lemma variantSchema_price_issue:
  assumes "property vkv ''price'' = Some (JNum n)" and "n \<le> 0"
  shows "Issue (p @ [Key ''price'']) ''Price must be greater than 0''
           \<in> set (issues_of (variantSchema p (Some (JObj vkv))))"
proof -
  have "refine (z_number ''Price is required'' ''Price must be a number''
          (p @ [Key ''price'']) (property vkv ''price''))
        (\<lambda>n. check (0 < n) (p @ [Key ''price'']) ''Price must be greater than 0'') =
      Inl [Issue (p @ [Key ''price'']) ''Price must be greater than 0'']"
    using assms by (simp add: z_number_def refine_def check_def)
  then show ?thesis
    by (simp add: variantSchema_def issues_of_ap)
qed

lemma variants_field_price_issue:
  assumes "k < length vs" and "vs ! k = JObj vkv"
    and "property vkv ''price'' = Some (JNum n)" and "n \<le> 0"
  shows "Issue [Key ''variants'', Index k, Key ''price''] ''Price must be greater than 0''
           \<in> set (issues_of (variants_field (Some (JArr vs))))"
proof -
  have "Issue ([Key ''variants''] @ [Index (0 + k)] @ [Key ''price''])
      ''Price must be greater than 0''
      \<in> set (issues_of (variantSchema ([Key ''variants''] @ [Index (0 + k)]) (Some (vs ! k))))"
    using variantSchema_price_issue[OF assms(3,4), of "[Key ''variants''] @ [Index (0 + k)]"]
    by (simp add: assms(2))
  from array_items_issue[OF assms(1), of _ variantSchema "[Key ''variants'']" 0, OF this]
  have "Issue [Key ''variants'', Index k, Key ''price''] ''Price must be greater than 0''
      \<in> set (issues_of (array_items variantSchema [Key ''variants''] 0 vs))"
    by simp
  moreover have "vs \<noteq> []" using assms(1) by auto
  ultimately show ?thesis by (simp add: variants_field_def z_array_def)
qed

lemma title_field_issue:
  assumes "v = None \<or> v = Some (JStr [])"
  shows "\<exists>m. Issue [Key ''title''] m \<in> set (issues_of (title_field v))"
  using assms
  by (auto simp: title_field_def z_string_def refine_def check_def invalid_type_def)

lemma vendor_field_issue:
  assumes "v = None \<or> v = Some (JStr [])"
  shows "\<exists>m. Issue [Key ''vendor''] m \<in> set (issues_of (vendor_field v))"
  using assms
  by (auto simp: vendor_field_def z_string_def refine_def check_def invalid_type_def)

text \<open>
  C8. \<^const>\<open>createProductSchema\<close> returns a value or a list of issues, and never faults. A
  payload whose variants are the empty array is rejected with an issue under \<^verbatim>\<open>variants\<close>;
  a payload with a variant whose price is a number not above zero is rejected with an
  issue under \<^verbatim>\<open>variants\<close>, at the index of the variant, at \<^verbatim>\<open>price\<close>; a payload without a
  title (or vendor), or with the empty string there, is rejected with an issue under
  \<^verbatim>\<open>title\<close> (or \<^verbatim>\<open>vendor\<close>). A payload is accepted exactly when it satisfies the rules.
\<close>

theorem createProductSchema_validation:
  "(property kv ''variants'' = Some (JArr []) \<longrightarrow>
      (\<exists>issues. createProductSchema fmt (JObj kv) = Inl issues \<and>
         Issue [Key ''variants''] ''At least one variant is required'' \<in> set issues)) \<and>
   (\<forall>vs k vkv n.
      property kv ''variants'' = Some (JArr vs) \<and> k < length vs \<and> vs ! k = JObj vkv \<and>
      property vkv ''price'' = Some (JNum n) \<and> n \<le> 0 \<longrightarrow>
      (\<exists>issues. createProductSchema fmt (JObj kv) = Inl issues \<and>
         Issue [Key ''variants'', Index k, Key ''price''] ''Price must be greater than 0''
           \<in> set issues)) \<and>
   (property kv ''title'' = None \<or> property kv ''title'' = Some (JStr []) \<longrightarrow>
      (\<exists>issues m. createProductSchema fmt (JObj kv) = Inl issues \<and>
         Issue [Key ''title''] m \<in> set issues)) \<and>
   (property kv ''vendor'' = None \<or> property kv ''vendor'' = Some (JStr []) \<longrightarrow>
      (\<exists>issues m. createProductSchema fmt (JObj kv) = Inl issues \<and>
         Issue [Key ''vendor''] m \<in> set issues)) \<and>
   ((\<exists>payload. createProductSchema fmt body = Inr payload) \<longleftrightarrow> product_rules fmt body)"
proof (intro conjI impI allI)
  assume "property kv ''variants'' = Some (JArr [])"
  then have "Issue [Key ''variants''] ''At least one variant is required''
      \<in> set (issues_of (createProductSchema fmt (JObj kv)))"
    by (simp add: issues_of_createProductSchema variants_field_def z_array_def)
  then show "\<exists>issues. createProductSchema fmt (JObj kv) = Inl issues \<and>
      Issue [Key ''variants''] ''At least one variant is required'' \<in> set issues"
    by (rule rejected_with)
next
  fix vs k vkv n
  assume a: "property kv ''variants'' = Some (JArr vs) \<and> k < length vs \<and> vs ! k = JObj vkv \<and>
      property vkv ''price'' = Some (JNum n) \<and> n \<le> 0"
  then have "Issue [Key ''variants'', Index k, Key ''price''] ''Price must be greater than 0''
      \<in> set (issues_of (variants_field (Some (JArr vs))))"
    by (intro variants_field_price_issue[of k vs vkv n]) simp_all
  with a have "Issue [Key ''variants'', Index k, Key ''price''] ''Price must be greater than 0''
      \<in> set (issues_of (createProductSchema fmt (JObj kv)))"
    by (simp add: issues_of_createProductSchema)
  then show "\<exists>issues. createProductSchema fmt (JObj kv) = Inl issues \<and>
      Issue [Key ''variants'', Index k, Key ''price''] ''Price must be greater than 0''
        \<in> set issues"
    by (rule rejected_with)
next
  assume "property kv ''title'' = None \<or> property kv ''title'' = Some (JStr [])"
  from title_field_issue[OF this] obtain m
    where "Issue [Key ''title''] m \<in> set (issues_of (title_field (property kv ''title'')))" ..
  then have "Issue [Key ''title''] m \<in> set (issues_of (createProductSchema fmt (JObj kv)))"
    by (simp add: issues_of_createProductSchema)
  from rejected_with[OF this]
  show "\<exists>issues m. createProductSchema fmt (JObj kv) = Inl issues \<and>
      Issue [Key ''title''] m \<in> set issues"
    by (elim exE) (intro exI, assumption)
next
  assume "property kv ''vendor'' = None \<or> property kv ''vendor'' = Some (JStr [])"
  from vendor_field_issue[OF this] obtain m
    where "Issue [Key ''vendor''] m \<in> set (issues_of (vendor_field (property kv ''vendor'')))" ..
  then have "Issue [Key ''vendor''] m \<in> set (issues_of (createProductSchema fmt (JObj kv)))"
    by (simp add: issues_of_createProductSchema)
  from rejected_with[OF this]
  show "\<exists>issues m. createProductSchema fmt (JObj kv) = Inl issues \<and>
      Issue [Key ''vendor''] m \<in> set issues"
    by (elim exE) (intro exI, assumption)
next
  show "(\<exists>payload. createProductSchema fmt body = Inr payload) \<longleftrightarrow> product_rules fmt body"
    using isl_createProductSchema[of fmt body]
    by (cases "createProductSchema fmt body") simp_all
qed

lemma mug_body_parses: "createProductSchema example_formats mug_body = Inr mug_input"
  by (simp add: createProductSchema_def mug_body_def mug_properties_def mug_input_def
      property_def title_field_def vendor_field_def variants_field_def published_at_field_def
      z_string_def z_optional_def z_nullable_def z_array_def z_number_def refine_def
      check_def ap_def variantSchema_def plain_variant_def example_formats_def
      less_js_number_def less_eq_js_number_def zero_js_number_def)

theorem createProductSchema_validation_witness:
  "property [(''variants'', JArr [])] ''variants'' = Some (JArr []) \<and>
   property [(''variants'', JArr [])] ''title'' = None \<and>
   property [(''variants'', JArr [])] ''vendor'' = None \<and>
   (\<exists>issues m1 m2. createProductSchema example_formats (JObj [(''variants'', JArr [])]) = Inl issues \<and>
      Issue [Key ''variants''] ''At least one variant is required'' \<in> set issues \<and>
      Issue [Key ''title''] m1 \<in> set issues \<and>
      Issue [Key ''vendor''] m2 \<in> set issues) \<and>
   property (mug_properties 0) ''variants'' =
     Some (JArr [JObj [(''id'', JStr ''client-id''), (''price'', JNum (Finite 8))],
                 JObj [(''price'', JNum 0)]]) \<and>
   (\<exists>issues. createProductSchema example_formats free_mug_body = Inl issues \<and>
      Issue [Key ''variants'', Index 1, Key ''price''] ''Price must be greater than 0''
        \<in> set issues) \<and>
   product_rules example_formats mug_body \<and>
   createProductSchema example_formats mug_body = Inr mug_input"
proof -
  let ?kv = "[(''variants'', JArr [])]"
  note empty = createProductSchema_validation[of ?kv example_formats mug_body]
  have p: "property ?kv ''variants'' = Some (JArr [])" "property ?kv ''title'' = None"
    "property ?kv ''vendor'' = None"
    by (simp_all add: property_def)
  from empty p obtain issues where i1: "createProductSchema example_formats (JObj ?kv) = Inl issues"
    and v: "Issue [Key ''variants''] ''At least one variant is required'' \<in> set issues"
    by auto
  from empty p i1 obtain m1 where m1: "Issue [Key ''title''] m1 \<in> set issues"
    by auto
  from empty p i1 obtain m2 where m2: "Issue [Key ''vendor''] m2 \<in> set issues"
    by auto
  have first: "\<exists>issues m1 m2. createProductSchema example_formats (JObj ?kv) = Inl issues \<and>
      Issue [Key ''variants''] ''At least one variant is required'' \<in> set issues \<and>
      Issue [Key ''title''] m1 \<in> set issues \<and>
      Issue [Key ''vendor''] m2 \<in> set issues"
    using i1 v m1 m2 by (intro exI[of _ issues] exI[of _ m1] exI[of _ m2]) simp
  let ?vs = "[JObj [(''id'', JStr ''client-id''), (''price'', JNum (Finite 8))],
      JObj [(''price'', JNum 0)]]"
  have q: "property (mug_properties 0) ''variants'' = Some (JArr ?vs)"
    by (simp add: property_def mug_properties_def)
  have "property (mug_properties 0) ''variants'' = Some (JArr ?vs) \<and> 1 < length ?vs \<and>
      ?vs ! 1 = JObj [(''price'', JNum 0)] \<and>
      property [(''price'', JNum 0)] ''price'' = Some (JNum 0) \<and> (0::js_number) \<le> 0"
    using q by (simp add: property_def)
  with createProductSchema_validation[of "mug_properties 0" example_formats mug_body]
  have second: "\<exists>issues. createProductSchema example_formats free_mug_body = Inl issues \<and>
      Issue [Key ''variants'', Index 1, Key ''price''] ''Price must be greater than 0''
        \<in> set issues"
    unfolding free_mug_body_def by blast
  have "\<exists>payload. createProductSchema example_formats mug_body = Inr payload"
    using mug_body_parses by blast
  with empty have third: "product_rules example_formats mug_body" by blast
  show ?thesis
    by (intro conjI) (rule p first q second third mug_body_parses)+
qed

section \<open>A price that is not finite\<close>

lemma overflow_body_parses:
  "createProductSchema example_formats overflow_body = Inr overflow_input"
  by (simp add: createProductSchema_def overflow_body_def mug_properties_def overflow_input_def
      mug_input_def property_def title_field_def vendor_field_def variants_field_def
      published_at_field_def z_string_def z_optional_def z_nullable_def z_array_def
      z_number_def refine_def check_def ap_def variantSchema_def plain_variant_def
      example_formats_def less_js_number_def less_eq_js_number_def zero_js_number_def)

lemma overflow_created_written:
  "map (\<lambda>v. (v_id v, v_price v)) (variants (as_written (created overflow_input seeded))) =
     [(Some ''uuid-x'', Some (Finite 8)), (Some ''uuid-xx'', None)]"
  by (simp add: as_written_def created_def overflow_input_def mug_input_def plain_variant_def
      written_variant_def written_number_def seeded_sources example_uuid_def upt_conv_Cons
      del: upt_Suc)

lemma overflow_run:
  "POST example_formats overflow_body seeded =
     (201, seeded\<lparr>clock_reads := 2, uuids_drawn := 3,
             data_file := Some (Products
               [seed_product, as_written (created overflow_input seeded)])\<rparr>)"
  by (simp add: POST_def overflow_body_parses createProduct_run[OF seeded_file]
      seeded_sources JSON_stringify_def written_seed_product overflow_input_def mug_input_def)

lemma overflow_catalogue:
  "catalogue (serve example_formats [Create overflow_body] seeded) =
     [seed_product, as_written (created overflow_input seeded)]"
  by (simp add: overflow_run catalogue_stored)

text \<open>
  C4. The body of a request to create has the price \<^verbatim>\<open>1e999\<close> in its second variant.
  The schema accepts it, the price being the number \<^verbatim>\<open>Infinity\<close>, above zero; the request
  is answered with status 201; and the product that the collection then holds has a
  variant whose price is \<^verbatim>\<open>null\<close>, no number above zero.
\<close>

theorem overflow_price_stored_as_null:
  "catalogue seeded = [seed_product] \<and>
   createProductSchema example_formats overflow_body = Inr overflow_input \<and>
   map v_price (in_variants overflow_input) = [Some (Finite 8), Some Infinity] \<and>
   fst (POST example_formats overflow_body seeded) = 201 \<and>
   map (\<lambda>p. map v_price (variants p))
     (catalogue (serve example_formats [Create overflow_body] seeded)) =
     [[Some (Finite (1999 / 100)), Some (Finite (2199 / 100))], [Some (Finite 8), None]] \<and>
   \<not> list_all well_formed (catalogue (serve example_formats [Create overflow_body] seeded))"
proof -
  have start: "catalogue seeded = [seed_product]"
    by (simp add: catalogue_stored[OF seeded_file])
  have given: "map v_price (in_variants overflow_input) = [Some (Finite 8), Some Infinity]"
    by (simp add: overflow_input_def plain_variant_def)
  have status: "fst (POST example_formats overflow_body seeded) = 201"
    by (simp add: overflow_run)
  have new: "map v_price (variants (as_written (created overflow_input seeded))) =
      [Some (Finite 8), None]"
    using arg_cong[OF overflow_created_written, of "map snd"] by (simp add: comp_def)
  have old: "map v_price (variants seed_product) =
      [Some (Finite (1999 / 100)), Some (Finite (2199 / 100))]"
    by (simp add: seed_product_def seed_variants_def)
  have prices: "map (\<lambda>p. map v_price (variants p))
      (catalogue (serve example_formats [Create overflow_body] seeded)) =
      [[Some (Finite (1999 / 100)), Some (Finite (2199 / 100))], [Some (Finite 8), None]]"
    unfolding overflow_catalogue by (simp add: old new)
  have "\<not> list_all priced (variants (as_written (created overflow_input seeded)))"
  proof
    assume "list_all priced (variants (as_written (created overflow_input seeded)))"
    then have "list_all (\<lambda>n. case n of None \<Rightarrow> False | Some n \<Rightarrow> 0 < n)
        (map v_price (variants (as_written (created overflow_input seeded))))"
      by (simp add: list_all_iff priced_def)
    then show False unfolding new by simp
  qed
  then have broken: "\<not> list_all well_formed
      (catalogue (serve example_formats [Create overflow_body] seeded))"
    unfolding overflow_catalogue by (simp add: well_formed_def)
  show ?thesis
    by (intro conjI) (rule start overflow_body_parses given status prices broken)+
qed

section \<open>Listing a collection that the store holds\<close>

lemma least_price_seed: "least_price seed_product = Finite (1999 / 100)"
  by (simp add: least_price_def seed_product_def seed_variants_def ToNumber_def
      min_def less_eq_js_number_def)

lemma least_price_overflow: "least_price (as_written (created overflow_input seeded)) = 0"
proof -
  have "v_price ` set (variants (as_written (created overflow_input seeded))) =
      set (map v_price (variants (as_written (created overflow_input seeded))))"
    by simp
  also have "\<dots> = {Some (Finite 8), None}"
    using arg_cong[OF overflow_created_written, of "map snd"] by (simp add: comp_def)
  finally show ?thesis
    by (simp add: least_price_def ToNumber_def min_def less_eq_js_number_def
        zero_js_number_def)
qed

lemma array_items_replicate:
  assumes "\<And>q. schema q (Some x) = Inr y"
  shows "array_items schema p i (replicate n x) = Inr (replicate n y)"
  by (induction n arbitrary: i) (simp_all add: ap_def assms)

lemma price_only_variant:
  "variantSchema q (Some (JObj [(''price'', JNum (Finite 5))])) = Inr (plain_variant None 5)"
  by (simp add: variantSchema_def property_def z_string_def z_optional_def z_nullable_def
      z_array_def z_number_def refine_def check_def ap_def plain_variant_def
      less_js_number_def less_eq_js_number_def zero_js_number_def)

lemma bulk_body_parses:
  assumes "0 < n"
  shows "createProductSchema example_formats (bulk_body n) = Inr (bulk_input n)"
proof -
  have "variants_field (Some (JArr (replicate n (JObj [(''price'', JNum (Finite 5))])))) =
      Inr (replicate n (plain_variant None 5))"
    using assms
    by (simp add: variants_field_def z_array_def
        array_items_replicate[of variantSchema, OF price_only_variant])
  then show ?thesis
    by (simp add: createProductSchema_def bulk_body_def bulk_input_def property_def
        title_field_def vendor_field_def published_at_field_def z_string_def z_optional_def
        z_nullable_def refine_def check_def ap_def)
qed

lemma bulk_run:
  assumes "0 < n"
  shows "POST example_formats (bulk_body n) seeded =
     (201, seeded\<lparr>clock_reads := 2, uuids_drawn := Suc n,
             data_file := Some (Products
               [seed_product, as_written (created (bulk_input n) seeded)])\<rparr>)"
  by (simp add: POST_def bulk_body_parses[OF assms] createProduct_run[OF seeded_file]
      seeded_sources JSON_stringify_def written_seed_product bulk_input_def)

lemma bulk_created_length:
  "length (variants (as_written (created (bulk_input n) seeded))) = n"
  by (simp add: as_written_fields created_def bulk_input_def)

text \<open>
  C5. Two collections that the store holds after a request that the schema accepts. The
  first is the collection after a request to create a product with 130000 variants, each
  with the price 5, where the engine passes at most 120000 arguments:
  \<^const>\<open>listProducts\<close> faults with \<^const>\<open>RangeError\<close> and returns no item. The second is the
  collection after the request with the price \<^verbatim>\<open>1e999\<close>: the item of that product has the
  \<open>min_price\<close> 0, and the product has two variants, with the prices 8 and \<^verbatim>\<open>null\<close>.
\<close>

theorem listProducts_range_error_and_null_price:
  "createProductSchema example_formats (bulk_body 130000) = Inr (bulk_input 130000) \<and>
   fst (POST example_formats (bulk_body 130000) seeded) = 201 \<and>
   map (\<lambda>p. length (variants p))
     (catalogue (serve example_formats [Create (bulk_body 130000)] seeded)) = [2, 130000] \<and>
   max_arguments (serve example_formats [Create (bulk_body 130000)] seeded) = 120000 \<and>
   fst (listProducts (serve example_formats [Create (bulk_body 130000)] seeded)) =
     Inl RangeError \<and>
   map (\<lambda>p. map v_price (variants p))
     (catalogue (serve example_formats [Create overflow_body] seeded)) =
     [[Some (Finite (1999 / 100)), Some (Finite (2199 / 100))], [Some (Finite 8), None]] \<and>
   map_sum id (map min_price)
     (fst (listProducts (serve example_formats [Create overflow_body] seeded))) =
     Inr [Finite (1999 / 100), 0]"
proof -
  have old: "map v_price (variants seed_product) =
      [Some (Finite (1999 / 100)), Some (Finite (2199 / 100))]"
    by (simp add: seed_product_def seed_variants_def)
  have two: "length (variants seed_product) = 2"
    using arg_cong[OF old, of length] by simp
  have accepted: "createProductSchema example_formats (bulk_body 130000) =
      Inr (bulk_input 130000)"
    by (rule bulk_body_parses) simp
  have run: "POST example_formats (bulk_body 130000) seeded =
     (201, seeded\<lparr>clock_reads := 2, uuids_drawn := Suc 130000,
             data_file := Some (Products
               [seed_product, as_written (created (bulk_input 130000) seeded)])\<rparr>)"
    by (rule bulk_run) simp
  have status: "fst (POST example_formats (bulk_body 130000) seeded) = 201"
    unfolding run by simp
  define b where "b = serve example_formats [Create (bulk_body 130000)] seeded"
  have b_file: "data_file b =
      Some (Products [seed_product, as_written (created (bulk_input 130000) seeded)])"
    and b_args: "max_arguments b = 120000"
    unfolding b_def serve.simps run by (simp_all add: seeded_sources)
  have many: "map (\<lambda>p. length (variants p)) (catalogue b) = [2, 130000]"
    unfolding catalogue_stored[OF b_file] by (simp add: two bulk_created_length)
  have "list_item 120000 seed_product =
      Inr (ShopifyProduct.extend seed_product
             (ProductListItem.fields
                (if variants seed_product = [] then 0 else least_price seed_product)))"
    by (rule list_item_within) (simp add: two)
  moreover have "list_item 120000 (as_written (created (bulk_input 130000) seeded)) =
      Inl RangeError"
    by (rule list_item_beyond) (simp add: bulk_created_length)
  ultimately have fault: "fst (listProducts b) = Inl RangeError"
    by (simp add: listProducts_def read_stored[OF b_file] b_args)
  define w where "w = serve example_formats [Create overflow_body] seeded"
  have stored: "data_file w =
      Some (Products [seed_product, as_written (created overflow_input seeded)])"
    and args: "max_arguments w = 120000"
    by (simp_all add: w_def overflow_run seeded_sources)
  have new: "map v_price (variants (as_written (created overflow_input seeded))) =
      [Some (Finite 8), None]"
    using arg_cong[OF overflow_created_written, of "map snd"] by (simp add: comp_def)
  have prices: "map (\<lambda>p. map v_price (variants p)) (catalogue w) =
      [[Some (Finite (1999 / 100)), Some (Finite (2199 / 100))], [Some (Finite 8), None]]"
    unfolding catalogue_stored[OF stored] by (simp add: old new)
  have lengths: "length (variants (as_written (created overflow_input seeded))) = 2"
    using arg_cong[OF new, of length] by simp
  have "\<forall>p \<in> set [seed_product, as_written (created overflow_input seeded)].
      length (variants p) \<le> max_arguments w"
    by (simp add: args two lengths)
  from listProducts_within_limit[OF stored this]
  obtain items where items: "listProducts w = (Inr items, w)"
    and least: "map min_price items =
      map (\<lambda>p. if variants p = [] then 0 else least_price p)
        [seed_product, as_written (created overflow_input seeded)]"
    by blast
  have nonempty: "variants seed_product \<noteq> []"
    "variants (as_written (created overflow_input seeded)) \<noteq> []"
    using two lengths by auto
  have "map min_price items = [Finite (1999 / 100), 0]"
    unfolding least by (simp add: nonempty least_price_seed least_price_overflow)
  then have zero: "map_sum id (map min_price) (fst (listProducts w)) =
      Inr [Finite (1999 / 100), 0]"
    by (simp add: items)
  show ?thesis
    using accepted status many b_args fault prices zero unfolding b_def w_def
    by (intro conjI)
qed

section \<open>The user stores: the filter of the load\<close>




section \<open>Loading the user file\<close>







section \<open>Creating a user\<close>





lemma written_created_entry:
  "written_json (JObj [(''id'', JStr i), (''name'', JStr n), (''email'', JStr e),
     (''passwordHash'', JStr h)]) =
   JObj [(''id'', JStr i), (''name'', JStr n), (''email'', JStr e), (''passwordHash'', JStr h)]"
  by simp






end
